theory Spec2Isabelle
  imports Main
begin

text \<open>
  The two scripts \<open>scripts/build-resume-docx.py\<close> and
  \<open>scripts/build-coverletter-docx.py\<close>: each reads an HTML file, extracts a record from
  its tree (BeautifulSoup) and builds a Word document from the record (python-docx).
  The functions of the scripts are modelled first, with the source lines they stand for;
  then come the definitions used to state properties, the example inputs, and the
  properties. A function of the cover-letter script whose name the resume script also
  uses has the prefix \<open>cl_\<close>; a leading underscore of a name is dropped.
\<close>

section \<open>Text\<close>

text \<open>
  A Python \<open>str\<close> is a sequence of Unicode code points; it is modelled as a list of
  natural numbers, one per code point. \<open>str\<close> turns an ASCII literal into such a list.
\<close>

type_synonym pystr = "nat list"

definition str :: "string \<Rightarrow> pystr" where
  "str s = map of_char s"

text \<open>
  \<open>isspace\<close> is the set of code points that Python's \<open>str.strip()\<close> removes
  (the characters for which \<open>str.isspace\<close> holds).
\<close>

definition isspace :: "nat \<Rightarrow> bool" where
  "isspace c =
     (c \<in> set [9, 10, 11, 12, 13, 28, 29, 30, 31, 32, 133, 160, 5760,
                8232, 8233, 8239, 8287, 12288]
      \<or> (8192 \<le> c \<and> c \<le> 8202))"

definition strip :: "pystr \<Rightarrow> pystr" where
  "strip s = rev (dropWhile isspace (rev (dropWhile isspace s)))"

text \<open>\<open>join sep xs\<close> is Python's \<open>sep.join(xs)\<close>.\<close>

fun join :: "pystr \<Rightarrow> pystr list \<Rightarrow> pystr" where
  "join sep [] = []"
| "join sep [x] = x"
| "join sep (x # y # ys) = x @ sep @ join sep (y # ys)"

section \<open>The HTML tree and its queries\<close>

text \<open>
  The tree that \<open>BeautifulSoup(text, "lxml")\<close> returns. A node is a text string
  (\<open>NavigableString\<close>), a string of a kind that \<open>get_text\<close> leaves out (a comment,
  a doctype, a declaration: \<open>Comment\<close>), or a tag with its name, the list of its
  \<open>class\<close> attribute (empty when the attribute is absent) and its children.
  The soup itself is the root tag.
\<close>

datatype node =
    NavigableString pystr
  | Comment pystr
  | Tag pystr "pystr list" "node list"

text \<open>\<open>child.name\<close>: \<open>None\<close> for a string.\<close>

fun tag_name :: "node \<Rightarrow> pystr option" where
  "tag_name (Tag n cls cs) = Some n"
| "tag_name _ = None"

text \<open>\<open>child.get("class") or []\<close>.\<close>

fun get_class :: "node \<Rightarrow> pystr list" where
  "get_class (Tag n cls cs) = cls"
| "get_class _ = []"

text \<open>\<open>tag.children\<close>: the direct children, in document order.\<close>

fun children :: "node \<Rightarrow> node list" where
  "children (Tag n cls cs) = cs"
| "children _ = []"

text \<open>\<open>tag.descendants\<close>: every node below the tag, in document order.\<close>

fun descendants :: "node \<Rightarrow> node list" where
  "descendants (Tag n cls cs) = concat (map (\<lambda>c. c # descendants c) cs)"
| "descendants _ = []"

text \<open>
  The match of \<open>find(name, class_=c)\<close>: a tag of that name whose class list holds
  \<open>c\<close> (every class searched for in the source is a single token).
  \<open>None\<close> as the class stands for a call without \<open>class_\<close>.
\<close>

definition matches :: "pystr \<Rightarrow> pystr option \<Rightarrow> node \<Rightarrow> bool" where
  "matches nm cls d =
     (tag_name d = Some nm \<and> (case cls of None \<Rightarrow> True | Some c \<Rightarrow> c \<in> set (get_class d)))"

definition find_all :: "node \<Rightarrow> pystr \<Rightarrow> pystr option \<Rightarrow> node list" where
  "find_all t nm cls = filter (matches nm cls) (descendants t)"

text \<open>\<open>find_all(name, recursive=False)\<close>: direct children only.\<close>

definition find_all_children :: "node \<Rightarrow> pystr \<Rightarrow> pystr option \<Rightarrow> node list" where
  "find_all_children t nm cls = filter (matches nm cls) (children t)"

text \<open>\<open>find\<close>: the first match in document order, \<open>None\<close> when there is none.\<close>

definition find_tag :: "node \<Rightarrow> pystr \<Rightarrow> pystr option \<Rightarrow> node option" where
  "find_tag t nm cls = (case find_all t nm cls of [] \<Rightarrow> None | d # ds \<Rightarrow> Some d)"

text \<open>
  \<open>get_text(sep, strip=True)\<close>: every text string of the node (the node itself when it
  is a string, its descendants when it is a tag) is stripped, the empty ones are dropped
  and the rest is joined with \<open>sep\<close>.
\<close>

fun stripped_string :: "node \<Rightarrow> pystr list" where
  "stripped_string (NavigableString s) = (if strip s = [] then [] else [strip s])"
| "stripped_string _ = []"

fun all_strings :: "node \<Rightarrow> pystr list" where
  "all_strings (Tag n cls cs) = concat (map stripped_string (descendants (Tag n cls cs)))"
| "all_strings d = stripped_string d"

definition get_text :: "pystr \<Rightarrow> node \<Rightarrow> pystr" where
  "get_text sep d = join sep (all_strings d)"

section \<open>The records the extractors build\<close>

record job =
  job_title :: pystr
  job_company :: pystr
  job_date :: pystr
  job_bullets :: "pystr list"

text \<open>
  \<open>data["education"]\<close> is a dictionary that is empty or holds the keys \<open>left\<close> and
  \<open>right\<close>: a field is \<open>None\<close> when its key is absent.
\<close>

record education_dict =
  edu_left :: "pystr list option"
  edu_right :: "pystr list option"

record doc_data =
  name :: pystr
  title :: pystr
  contacts :: "pystr list"

record resume_data = doc_data +
  skills :: "pystr list"
  jobs :: "job list"
  military :: "job list"
  education :: education_dict

record cover_data = doc_data +
  date :: pystr
  badge :: pystr
  recipient_lines :: "pystr list"
  salutation :: pystr
  paragraphs :: "pystr list"
  regards :: pystr
  signature :: pystr
  credential :: pystr

text \<open>The exceptions the two programs can end with.\<close>

datatype error = AttributeError | IndexError | FileNotFoundError | UnicodeDecodeError | OSError

section \<open>build-resume-docx.py: extraction\<close>

text \<open>
  The loop over \<open>contact_row.children\<close> (also in the cover letter): the text of each
  child, kept when it is not empty.
\<close>

definition parse_contacts :: "node \<Rightarrow> pystr list" where
  "parse_contacts contact_row =
     filter (\<lambda>text. text \<noteq> []) (map (get_text []) (children contact_row))"

text \<open>\<open>_parse_job\<close>. \<open>header.find\<close> on \<open>None\<close> raises \<open>AttributeError\<close>.\<close>

definition parse_job :: "node \<Rightarrow> error + job" where
  "parse_job job_div =
     (case find_tag job_div (str ''div'') (Some (str ''job-header'')) of
        None \<Rightarrow> Inl AttributeError
      | Some header \<Rightarrow>
          (let title_el = find_tag header (str ''span'') (Some (str ''job-title''));
               company_el = find_tag header (str ''span'') (Some (str ''job-company''));
               date_el = find_tag header (str ''span'') (Some (str ''job-date''));
               bullets = find_tag job_div (str ''ul'') (Some (str ''job-bullets''))
           in Inr \<lparr> job_title = (case title_el of Some e \<Rightarrow> get_text [] e | None \<Rightarrow> []),
                    job_company = (case company_el of Some e \<Rightarrow> get_text [] e | None \<Rightarrow> []),
                    job_date = (case date_el of Some e \<Rightarrow> get_text [] e | None \<Rightarrow> []),
                    job_bullets =
                      (case bullets of
                         Some ul \<Rightarrow> map (get_text []) (find_all ul (str ''li'') None)
                       | None \<Rightarrow> []) \<rparr>))"

text \<open>
  \<open>for job_div in ...: job = _parse_job(job_div); acc.append(job)\<close>, stopping at the
  first exception.
\<close>

fun parse_job_loop :: "job list \<Rightarrow> node list \<Rightarrow> error + job list" where
  "parse_job_loop acc [] = Inr acc"
| "parse_job_loop acc (job_div # rest) =
     (case parse_job job_div of
        Inl e \<Rightarrow> Inl e
      | Inr j \<Rightarrow> parse_job_loop (acc @ [j]) rest)"

text \<open>The body of the loop over the sections (lines 148 to 175).\<close>

definition parse_section :: "resume_data \<Rightarrow> node \<Rightarrow> error + resume_data" where
  "parse_section data sect =
     (case find_tag sect (str ''div'') (Some (str ''section-title'')) of
        None \<Rightarrow> Inr data
      | Some title_el \<Rightarrow>
          (let title_text = get_text [] title_el in
           if title_text = str ''Professional Experience'' then
             (case parse_job_loop (jobs data) (find_all sect (str ''div'') (Some (str ''job''))) of
                Inl e \<Rightarrow> Inl e
              | Inr js \<Rightarrow> Inr (data\<lparr>jobs := js\<rparr>))
           else if title_text = str ''Military Service'' then
             (case parse_job_loop (military data) (find_all sect (str ''div'') (Some (str ''job''))) of
                Inl e \<Rightarrow> Inl e
              | Inr js \<Rightarrow> Inr (data\<lparr>military := js\<rparr>))
           else if title_text = str ''Education & Certifications'' then
             (case find_tag sect (str ''div'') (Some (str ''two-column'')) of
                None \<Rightarrow> Inl AttributeError
              | Some two_col \<Rightarrow>
                  (case find_all_children two_col (str ''div'') None of
                     [] \<Rightarrow> Inl IndexError
                   | [c0] \<Rightarrow> Inl IndexError
                   | c0 # c1 # others \<Rightarrow>
                       Inr (data\<lparr>education :=
                         \<lparr> edu_left = Some (map (get_text (str '' ''))
                                             (find_all c0 (str ''div'') (Some (str ''cert-item'')))),
                           edu_right = Some (map (get_text (str '' ''))
                                             (find_all c1 (str ''div'') (Some (str ''cert-item'')))) \<rparr>\<rparr>)))
           else Inr data))"

fun parse_sections :: "resume_data \<Rightarrow> node list \<Rightarrow> error + resume_data" where
  "parse_sections data [] = Inr data"
| "parse_sections data (sect # rest) =
     (case parse_section data sect of
        Inl e \<Rightarrow> Inl e
      | Inr data' \<Rightarrow> parse_sections data' rest)"

text \<open>
  \<open>parse_resume\<close> from the parsed tree on (lines 122 to 177). Every \<open>.find\<close> or
  \<open>.get_text\<close> on \<open>None\<close> raises \<open>AttributeError\<close>.
\<close>

definition parse_resume_soup :: "node \<Rightarrow> error + resume_data" where
  "parse_resume_soup soup =
     (case find_tag soup (str ''div'') (Some (str ''header'')) of
        None \<Rightarrow> Inl AttributeError
      | Some header \<Rightarrow>
     (case find_tag header (str ''h1'') None of
        None \<Rightarrow> Inl AttributeError
      | Some h1 \<Rightarrow>
     (case find_tag header (str ''div'') (Some (str ''title'')) of
        None \<Rightarrow> Inl AttributeError
      | Some title_el \<Rightarrow>
     (case find_tag header (str ''div'') (Some (str ''contact-row'')) of
        None \<Rightarrow> Inl AttributeError
      | Some contact_row \<Rightarrow>
     (case find_tag soup (str ''div'') (Some (str ''skills-grid'')) of
        None \<Rightarrow> Inl AttributeError
      | Some skills_div \<Rightarrow>
          parse_sections
            \<lparr> name = get_text [] h1,
              title = get_text [] title_el,
              contacts = parse_contacts contact_row,
              skills = map (get_text []) (find_all skills_div (str ''div'') (Some (str ''skill-item''))),
              jobs = [],
              military = [],
              education = \<lparr> edu_left = None, edu_right = None \<rparr> \<rparr>
            (find_all soup (str ''div'') (Some (str ''section''))))))))"

section \<open>The document model (python-docx)\<close>

type_synonym rgb = "nat \<times> nat \<times> nat"

definition PRIMARY :: rgb where "PRIMARY = (0x0D, 0x6E, 0x6E)"
definition SECONDARY :: rgb where "SECONDARY = (0x14, 0x91, 0x9B)"
definition ACCENT :: rgb where "ACCENT = (0x1A, 0x3A, 0x3A)"
definition DARK :: rgb where "DARK = (0x2C, 0x3E, 0x50)"
definition WHITE :: rgb where "WHITE = (0xFF, 0xFF, 0xFF)"
definition GRAY :: rgb where "GRAY = (0x66, 0x66, 0x66)"

text \<open>
  A length is \<open>Pt(n)\<close> or \<open>Cm(t / 10)\<close>. Both are integers (EMU) in python-docx, so a
  length is false in a condition exactly when it is zero.
\<close>

datatype length = Pt int | Cm_tenths int

fun nonzero :: "length \<Rightarrow> bool" where
  "nonzero (Pt n) = (n \<noteq> 0)"
| "nonzero (Cm_tenths t) = (t \<noteq> 0)"

datatype align = LEFT | CENTER | RIGHT | JUSTIFY

record run =
  run_text :: pystr
  bold :: bool
  italic :: bool
  font_color :: "rgb option"
  font_size :: "length option"
  font_name :: "pystr option"
  all_caps :: bool

record para =
  alignment :: "align option"
  space_before :: "length option"
  space_after :: "length option"
  left_indent :: "length option"
  first_line_indent :: "length option"
  bottom_border :: "pystr option"
  runs :: "run list"

text \<open>
  A cell: its shading colour, its margins (top, bottom, left, right, in twentieths of a
  point), its width (in twentieths of a point) and its paragraphs.
\<close>

record cell =
  cell_shading :: "pystr option"
  cell_margins :: "(nat \<times> nat \<times> nat \<times> nat) option"
  cell_width :: "nat option"
  cell_paragraphs :: "para list"

text \<open>A table: its cells in row-major order (python-docx's \<open>_cells\<close>) and its column count.\<close>

record table =
  tbl_alignment :: "nat option"
  borderless :: bool
  full_width :: bool
  n_cols :: nat
  cells :: "cell list"

datatype block = Paragraph para | Table table

type_synonym document = "block list"

definition empty_para :: para where
  "empty_para = \<lparr> alignment = None, space_before = None, space_after = None,
                   left_indent = None, first_line_indent = None, bottom_border = None,
                   runs = [] \<rparr>"

definition empty_cell :: cell where
  "empty_cell = \<lparr> cell_shading = None, cell_margins = None, cell_width = None,
                   cell_paragraphs = [empty_para] \<rparr>"

text \<open>\<open>doc.add_table(rows, cols)\<close>: every cell holds one empty paragraph.\<close>

definition add_table :: "nat \<Rightarrow> nat \<Rightarrow> table" where
  "add_table n_rows cols =
     \<lparr> tbl_alignment = None, borderless = False, full_width = False, n_cols = cols,
       cells = replicate (n_rows * cols) empty_cell \<rparr>"

definition row_count :: "table \<Rightarrow> nat" where
  "row_count t = length (cells t) div n_cols t"

text \<open>
  \<open>table.cell(row_idx, col_idx)\<close> is \<open>_cells[col_idx + row_idx * column_count]\<close>, an
  \<open>IndexError\<close> out of range. The source changes the cell it gets in place;
  \<open>put_cell\<close> writes the changed cell back at the same index.
\<close>

definition table_cell :: "table \<Rightarrow> nat \<Rightarrow> nat \<Rightarrow> error + cell" where
  "table_cell t row_idx col_idx =
     (let idx = col_idx + row_idx * n_cols t
      in if idx < length (cells t) then Inr (cells t ! idx) else Inl IndexError)"

definition put_cell :: "table \<Rightarrow> nat \<Rightarrow> nat \<Rightarrow> cell \<Rightarrow> table" where
  "put_cell t row_idx col_idx c = t\<lparr>cells := (cells t)[col_idx + row_idx * n_cols t := c]\<rparr>"

definition set_cell_shading :: "cell \<Rightarrow> pystr \<Rightarrow> cell" where
  "set_cell_shading c color_hex = c\<lparr>cell_shading := Some color_hex\<rparr>"

definition remove_table_borders :: "table \<Rightarrow> table" where
  "remove_table_borders t = t\<lparr>borderless := True\<rparr>"

text \<open>\<open>set_cell_width(cell, inches)\<close> stores \<open>int(inches * 1440)\<close>; the only call passes 1.5, that is 2160.\<close>

definition set_cell_width :: "cell \<Rightarrow> nat \<Rightarrow> cell" where
  "set_cell_width c twips = c\<lparr>cell_width := Some twips\<rparr>"

definition set_cell_margins :: "cell \<Rightarrow> nat \<Rightarrow> nat \<Rightarrow> nat \<Rightarrow> nat \<Rightarrow> cell" where
  "set_cell_margins c m_top m_bottom m_left m_right =
     c\<lparr>cell_margins := Some (m_top * 20, m_bottom * 20, m_left * 20, m_right * 20)\<rparr>"

definition add_bottom_border :: "para \<Rightarrow> pystr \<Rightarrow> para" where
  "add_bottom_border p color_hex = p\<lparr>bottom_border := Some color_hex\<rparr>"

section \<open>build-resume-docx.py: rendering\<close>

text \<open>
  \<open>add_run(paragraph, text, bold, color, size, font_name)\<close>: \<open>new_run\<close> is the run it
  makes, \<open>add_run\<close> the paragraph with the run appended.
\<close>

definition new_run :: "pystr \<Rightarrow> bool \<Rightarrow> rgb option \<Rightarrow> length option \<Rightarrow> pystr option \<Rightarrow> run" where
  "new_run txt b col sz fnt =
     \<lparr> run_text = txt, bold = b, italic = False, font_color = col,
       font_size = (case sz of None \<Rightarrow> None | Some l \<Rightarrow> if nonzero l then Some l else None),
       font_name = (case fnt of None \<Rightarrow> None | Some f \<Rightarrow> if f \<noteq> [] then Some f else None),
       all_caps = False \<rparr>"

definition add_run :: "para \<Rightarrow> pystr \<Rightarrow> bool \<Rightarrow> rgb option \<Rightarrow> length option \<Rightarrow> pystr option \<Rightarrow> para" where
  "add_run p txt b col sz fnt = p\<lparr>runs := runs p @ [new_run txt b col sz fnt]\<rparr>"

text \<open>\<open>_add_section_heading\<close> and \<open>_add_spacer\<close>.\<close>

definition add_section_heading :: "document \<Rightarrow> pystr \<Rightarrow> document" where
  "add_section_heading doc txt =
     (let p = empty_para;
          p = p\<lparr>space_before := Some (Pt 10)\<rparr>;
          p = p\<lparr>space_after := Some (Pt 6)\<rparr>;
          p = add_run p txt True (Some PRIMARY) (Some (Pt 12)) None;
          p = add_bottom_border p (str ''0D6E6E'')
      in doc @ [Paragraph p])"

definition add_spacer :: "document \<Rightarrow> int \<Rightarrow> document" where
  "add_spacer doc pts =
     (let p = empty_para;
          p = p\<lparr>space_before := Some (Pt 0)\<rparr>;
          p = p\<lparr>space_after := Some (Pt pts)\<rparr>
      in doc @ [Paragraph p])"

text \<open>
  The contact row (lines 264 to 267): \<open>for i, contact in enumerate(data["contacts"])\<close>,
  with \<open>i\<close> the index of the next contact.
\<close>

fun add_contacts :: "para \<Rightarrow> nat \<Rightarrow> pystr list \<Rightarrow> para" where
  "add_contacts p i [] = p"
| "add_contacts p i (contact # rest) =
     (let p = (if i > 0 then add_run p (str ''    '') False (Some WHITE) (Some (Pt 9)) None else p);
          p = add_run p contact False (Some WHITE) (Some (Pt 9)) None
      in add_contacts p (i + 1) rest)"

text \<open>The header block (lines 226 to 267): a table of one cell with three paragraphs.\<close>

definition build_header :: "'a doc_data_scheme \<Rightarrow> error + table" where
  "build_header data =
     (let header_table = add_table 1 1;
          header_table = header_table\<lparr>tbl_alignment := Some 1\<rparr>;
          header_table = remove_table_borders header_table
      in case table_cell header_table 0 0 of
           Inl e \<Rightarrow> Inl e
         | Inr c \<Rightarrow>
             (let c = set_cell_shading c (str ''0D6E6E'');
                  c = set_cell_margins c 14 14 10 10;
                  header_table = header_table\<lparr>full_width := True\<rparr>
              in case cell_paragraphs c of
                   [] \<Rightarrow> Inl IndexError
                 | p # ps \<Rightarrow>
                     (let p = p\<lparr>alignment := Some CENTER\<rparr>;
                          p = p\<lparr>space_after := Some (Pt 2)\<rparr>;
                          p = p\<lparr>space_before := Some (Pt 4)\<rparr>;
                          p = add_run p (name data) True (Some WHITE) (Some (Pt 22)) None;
                          t = empty_para;
                          t = t\<lparr>alignment := Some CENTER\<rparr>;
                          t = t\<lparr>space_after := Some (Pt 8)\<rparr>;
                          t = t\<lparr>space_before := Some (Pt 0)\<rparr>;
                          r = new_run (title data) False (Some WHITE) (Some (Pt 11)) None;
                          r = r\<lparr>all_caps := True\<rparr>;
                          t = t\<lparr>runs := runs t @ [r]\<rparr>;
                          q = empty_para;
                          q = q\<lparr>alignment := Some CENTER\<rparr>;
                          q = q\<lparr>space_after := Some (Pt 4)\<rparr>;
                          q = q\<lparr>space_before := Some (Pt 0)\<rparr>;
                          q = add_contacts q 0 (contacts data);
                          c = c\<lparr>cell_paragraphs := (p # ps) @ [t, q]\<rparr>
                      in Inr (put_cell header_table 0 0 c))))"

text \<open>
  The skills grid (lines 279 to 292): \<open>for i, skill in enumerate(skills)\<close>, each skill
  written into the first paragraph of the cell at row \<open>i // 2\<close>, column \<open>i % 2\<close>.
  The check mark is U+2713.
\<close>

fun fill_skills :: "table \<Rightarrow> nat \<Rightarrow> pystr list \<Rightarrow> error + table" where
  "fill_skills t i [] = Inr t"
| "fill_skills t i (skill # rest) =
     (let row_idx = i div 2;
          col_idx = i mod 2
      in case table_cell t row_idx col_idx of
           Inl e \<Rightarrow> Inl e
         | Inr c \<Rightarrow>
             (case cell_paragraphs c of
                [] \<Rightarrow> Inl IndexError
              | p # ps \<Rightarrow>
                  (let p = p\<lparr>space_before := Some (Pt 2)\<rparr>;
                       p = p\<lparr>space_after := Some (Pt 2)\<rparr>;
                       p = add_run p [10003, 32] True (Some PRIMARY) (Some (Pt 10)) None;
                       p = add_run p skill False (Some DARK) (Some (Pt 10)) None
                   in fill_skills (put_cell t row_idx col_idx (c\<lparr>cell_paragraphs := p # ps\<rparr>))
                        (i + 1) rest)))"

definition build_skills :: "pystr list \<Rightarrow> error + table" where
  "build_skills skills_list =
     (let rows_needed = (length skills_list + 1) div 2;
          skills_table = add_table rows_needed 2;
          skills_table = remove_table_borders skills_table
      in fill_skills skills_table 0 skills_list)"

text \<open>The bullet paragraph of a job (lines 393 to 399). The triangle is U+25B8.\<close>

definition bullet_paragraph :: "pystr \<Rightarrow> para" where
  "bullet_paragraph bullet =
     (let p = empty_para;
          p = p\<lparr>space_before := Some (Pt 1)\<rparr>;
          p = p\<lparr>space_after := Some (Pt 1)\<rparr>;
          p = p\<lparr>left_indent := Some (Cm_tenths 8)\<rparr>;
          p = p\<lparr>first_line_indent := Some (Cm_tenths (- 4))\<rparr>;
          p = add_run p [9656, 32] False (Some SECONDARY) (Some (Pt 9)) None;
          p = add_run p bullet False (Some DARK) (Some (Pt 9)) None
      in p)"

text \<open>
  \<open>_add_job_entry\<close> (the parameter \<open>page_width_inches\<close> is not used by the source):
  a table of one row and two cells, then one paragraph per bullet.
\<close>

definition add_job_entry :: "document \<Rightarrow> job \<Rightarrow> error + document" where
  "add_job_entry doc j =
     (let job_table = add_table 1 2;
          job_table = remove_table_borders job_table
      in case table_cell job_table 0 0 of
           Inl e \<Rightarrow> Inl e
         | Inr left_cell \<Rightarrow>
      (case table_cell job_table 0 1 of
           Inl e \<Rightarrow> Inl e
         | Inr right_cell \<Rightarrow>
      (let right_cell = set_cell_width right_cell 2160
       in case cell_paragraphs left_cell of
            [] \<Rightarrow> Inl IndexError
          | p # ps \<Rightarrow>
      (let p = p\<lparr>space_before := Some (Pt 4)\<rparr>;
           p = p\<lparr>space_after := Some (Pt 2)\<rparr>;
           p = add_run p (job_title j) True (Some ACCENT) (Some (Pt 10)) None;
           p = (if job_company j \<noteq> []
                then add_run (add_run p (str '' | '') False (Some DARK) (Some (Pt 10)) None)
                       (job_company j) True (Some PRIMARY) (Some (Pt 10)) None
                else p);
           left_cell = left_cell\<lparr>cell_paragraphs := p # ps\<rparr>
       in case cell_paragraphs right_cell of
            [] \<Rightarrow> Inl IndexError
          | q # qs \<Rightarrow>
      (let q = q\<lparr>alignment := Some RIGHT\<rparr>;
           q = q\<lparr>space_before := Some (Pt 4)\<rparr>;
           q = q\<lparr>space_after := Some (Pt 2)\<rparr>;
           q = add_run q (job_date j) False (Some (0x66, 0x66, 0x66)) (Some (Pt 9)) None;
           right_cell = right_cell\<lparr>cell_paragraphs := q # qs\<rparr>;
           job_table = put_cell job_table 0 0 left_cell;
           job_table = put_cell job_table 0 1 right_cell
       in Inr (doc @ [Table job_table] @ map (\<lambda>b. Paragraph (bullet_paragraph b)) (job_bullets j)))))))"

text \<open>\<open>for job in ...: _add_job_entry(doc, job, page_width_inches)\<close>.\<close>

fun add_job_entries :: "document \<Rightarrow> job list \<Rightarrow> error + document" where
  "add_job_entries doc [] = Inr doc"
| "add_job_entries doc (j # rest) =
     (case add_job_entry doc j of
        Inl e \<Rightarrow> Inl e
      | Inr doc' \<Rightarrow> add_job_entries doc' rest)"

text \<open>An item paragraph of the education table (lines 327 to 330 and 339 to 342).\<close>

definition cert_paragraph :: "pystr \<Rightarrow> para" where
  "cert_paragraph item =
     (let p = empty_para;
          p = p\<lparr>space_after := Some (Pt 3)\<rparr>;
          p = p\<lparr>space_before := Some (Pt 1)\<rparr>;
          p = add_run p item False (Some DARK) (Some (Pt 9)) None
      in p)"

text \<open>
  The education table (lines 317 to 342). \<open>data["education"].get(key, [])\<close> is the
  list under the key, or the empty list when the key is absent.
\<close>

definition build_education :: "education_dict \<Rightarrow> error + table" where
  "build_education edu =
     (let edu_table = add_table 1 2;
          edu_table = remove_table_borders edu_table
      in case table_cell edu_table 0 0 of
           Inl e \<Rightarrow> Inl e
         | Inr left_cell \<Rightarrow>
      (case cell_paragraphs left_cell of
           [] \<Rightarrow> Inl IndexError
         | p # ps \<Rightarrow>
      (let p = p\<lparr>space_after := Some (Pt 4)\<rparr>;
           p = add_run p (str ''Education'') True (Some DARK) (Some (Pt 10)) None;
           left_cell = left_cell\<lparr>cell_paragraphs := (p # ps) @
             map cert_paragraph (case edu_left edu of Some items \<Rightarrow> items | None \<Rightarrow> [])\<rparr>
       in case table_cell edu_table 0 1 of
            Inl e \<Rightarrow> Inl e
          | Inr right_cell \<Rightarrow>
      (case cell_paragraphs right_cell of
           [] \<Rightarrow> Inl IndexError
         | q # qs \<Rightarrow>
      (let q = q\<lparr>space_after := Some (Pt 4)\<rparr>;
           q = add_run q (str ''Certifications'') True (Some DARK) (Some (Pt 10)) None;
           right_cell = right_cell\<lparr>cell_paragraphs := (q # qs) @
             map cert_paragraph (case edu_right edu of Some items \<Rightarrow> items | None \<Rightarrow> [])\<rparr>;
           edu_table = put_cell edu_table 0 0 left_cell;
           edu_table = put_cell edu_table 0 1 right_cell
       in Inr edu_table)))))"

text \<open>
  \<open>build_docx\<close> up to the call of \<open>doc.save\<close>: the body of the document. The page
  margins and the \<open>Normal\<close> style (lines 207 to 221) are the same for every input and
  are left out.
\<close>

definition build_document :: "resume_data \<Rightarrow> error + document" where
  "build_document data =
     (case build_header data of
        Inl e \<Rightarrow> Inl e
      | Inr header_table \<Rightarrow>
     (let doc = [Table header_table];
          spacer = empty_para;
          spacer = spacer\<lparr>space_before := Some (Pt 6)\<rparr>;
          spacer = spacer\<lparr>space_after := Some (Pt 0)\<rparr>;
          doc = doc @ [Paragraph spacer];
          doc = add_section_heading doc (str ''KEY SKILLS'')
      in case build_skills (skills data) of
           Inl e \<Rightarrow> Inl e
         | Inr skills_table \<Rightarrow>
     (let doc = doc @ [Table skills_table];
          doc = add_spacer doc 4;
          doc = add_section_heading doc (str ''PROFESSIONAL EXPERIENCE'')
      in case add_job_entries doc (jobs data) of
           Inl e \<Rightarrow> Inl e
         | Inr doc \<Rightarrow>
     (let doc = add_section_heading doc (str ''MILITARY SERVICE'')
      in case add_job_entries doc (military data) of
           Inl e \<Rightarrow> Inl e
         | Inr doc \<Rightarrow>
     (let doc = add_section_heading doc (str ''EDUCATION & CERTIFICATIONS'')
      in case build_education (education data) of
           Inl e \<Rightarrow> Inl e
         | Inr edu_table \<Rightarrow> Inr (doc @ [Table edu_table]))))))"

section \<open>Files, the libraries at the boundary, and the resume program\<close>

text \<open>
  The file system maps a path to the bytes of the file there; \<open>'b\<close> is the type of
  file contents. A path in \<open>unwritable\<close> cannot be written. What the libraries do with
  file contents is a parameter: \<open>read_soup\<close> is \<open>f.read()\<close> followed by
  \<open>BeautifulSoup(..., "lxml")\<close> (decoding may fail), \<open>docx_bytes\<close> is the container
  that \<open>doc.save\<close> writes for a document.
\<close>

record 'b world =
  files :: "pystr \<Rightarrow> 'b option"
  unwritable :: "pystr set"

record 'b lib =
  read_soup :: "'b \<Rightarrow> error + node"
  docx_bytes :: "document \<Rightarrow> 'b"

text \<open>\<open>open(html_path, "r")\<close>, \<open>f.read()\<close> and the parser (lines 119 and 120).\<close>

definition open_soup :: "'b lib \<Rightarrow> pystr \<Rightarrow> 'b world \<Rightarrow> error + node" where
  "open_soup l html_path w =
     (case files w html_path of
        None \<Rightarrow> Inl FileNotFoundError
      | Some b \<Rightarrow> read_soup l b)"

definition parse_resume :: "'b lib \<Rightarrow> pystr \<Rightarrow> 'b world \<Rightarrow> error + resume_data" where
  "parse_resume l html_path w =
     (case open_soup l html_path w of
        Inl e \<Rightarrow> Inl e
      | Inr soup \<Rightarrow> parse_resume_soup soup)"

text \<open>\<open>doc.save(output_path)\<close>.\<close>

definition save :: "'b lib \<Rightarrow> document \<Rightarrow> pystr \<Rightarrow> 'b world \<Rightarrow> error + 'b world" where
  "save l doc output_path w =
     (if output_path \<in> unwritable w then Inl OSError
      else Inr (w\<lparr>files := (files w)(output_path \<mapsto> docx_bytes l doc)\<rparr>))"

definition build_docx :: "'b lib \<Rightarrow> resume_data \<Rightarrow> pystr \<Rightarrow> 'b world \<Rightarrow> error + 'b world" where
  "build_docx l data output_path w =
     (case build_document data of
        Inl e \<Rightarrow> Inl e
      | Inr doc \<Rightarrow> save l doc output_path w)"

text \<open>
  The program (lines 402 to 408). Its result is the exit status, the lines printed on
  standard output and the file system it leaves. An exception that nothing catches ends
  the interpreter with status 1. \<open>arg_or argv i d\<close> is
  \<open>sys.argv[i] if len(sys.argv) > i else d\<close>.
\<close>

definition arg_or :: "pystr list \<Rightarrow> nat \<Rightarrow> pystr \<Rightarrow> pystr" where
  "arg_or argv i default_path = (if length argv > i then argv ! i else default_path)"

definition resume_main :: "'b lib \<Rightarrow> pystr list \<Rightarrow> 'b world \<Rightarrow> nat \<times> pystr list \<times> 'b world" where
  "resume_main l argv w =
     (let html_path = arg_or argv 1 (str ''resume.html'');
          output_path = arg_or argv 2 (str ''resume.docx'')
      in case parse_resume l html_path w of
           Inl e \<Rightarrow> (1, [], w)
         | Inr data \<Rightarrow>
             (case build_docx l data output_path w of
                Inl e \<Rightarrow> (1, [], w)
              | Inr w' \<Rightarrow> (0, [str ''Generated '' @ output_path], w')))"

section \<open>build-coverletter-docx.py\<close>

text \<open>
  The recipient lines (lines 116 to 124). Every node of the tree has \<open>get_text\<close>
  (BeautifulSoup 4.10 and later), so the \<open>hasattr\<close> test holds for each child.
\<close>

definition parse_recipient_lines :: "node \<Rightarrow> pystr list" where
  "parse_recipient_lines recipient =
     concat (map (\<lambda>child.
         if tag_name child = Some (str ''span'') \<and> str ''company-badge'' \<in> set (get_class child)
         then []
         else if tag_name child = Some (str ''br'') then []
         else (let text = get_text [] child in if text \<noteq> [] then [text] else []))
       (children recipient))"

definition parse_cover_letter_soup :: "node \<Rightarrow> error + cover_data" where
  "parse_cover_letter_soup soup =
     (case find_tag soup (str ''div'') (Some (str ''header'')) of
        None \<Rightarrow> Inl AttributeError
      | Some header \<Rightarrow>
     (case find_tag header (str ''h1'') None of
        None \<Rightarrow> Inl AttributeError
      | Some h1 \<Rightarrow>
     (case find_tag header (str ''div'') (Some (str ''title'')) of
        None \<Rightarrow> Inl AttributeError
      | Some title_el \<Rightarrow>
     (case find_tag header (str ''div'') (Some (str ''contact-row'')) of
        None \<Rightarrow> Inl AttributeError
      | Some contact_row \<Rightarrow>
     (case find_tag soup (str ''div'') (Some (str ''content'')) of
        None \<Rightarrow> Inl AttributeError
      | Some content \<Rightarrow>
     (case find_tag content (str ''div'') (Some (str ''date'')) of
        None \<Rightarrow> Inl AttributeError
      | Some date_el \<Rightarrow>
     (case find_tag content (str ''div'') (Some (str ''recipient'')) of
        None \<Rightarrow> Inl AttributeError
      | Some recipient \<Rightarrow>
     (case find_tag content (str ''div'') (Some (str ''salutation'')) of
        None \<Rightarrow> Inl AttributeError
      | Some salutation_el \<Rightarrow>
     (case find_tag content (str ''div'') (Some (str ''body'')) of
        None \<Rightarrow> Inl AttributeError
      | Some body \<Rightarrow>
     (case find_tag content (str ''div'') (Some (str ''closing'')) of
        None \<Rightarrow> Inl AttributeError
      | Some closing \<Rightarrow>
     (case find_tag closing (str ''div'') (Some (str ''regards'')) of
        None \<Rightarrow> Inl AttributeError
      | Some regards_el \<Rightarrow>
     (case find_tag closing (str ''div'') (Some (str ''signature'')) of
        None \<Rightarrow> Inl AttributeError
      | Some signature_el \<Rightarrow>
     (case find_tag closing (str ''div'') (Some (str ''credential'')) of
        None \<Rightarrow> Inl AttributeError
      | Some credential_el \<Rightarrow>
          Inr \<lparr> name = get_text [] h1,
                title = get_text [] title_el,
                contacts = parse_contacts contact_row,
                date = get_text [] date_el,
                badge = (case find_tag recipient (str ''span'') (Some (str ''company-badge'')) of
                           Some b \<Rightarrow> get_text [] b
                         | None \<Rightarrow> []),
                recipient_lines = parse_recipient_lines recipient,
                salutation = get_text [] salutation_el,
                paragraphs = map (get_text []) (find_all body (str ''p'') None),
                regards = get_text [] regards_el,
                signature = get_text [] signature_el,
                credential = get_text [] credential_el \<rparr>)))))))))))))"

definition parse_cover_letter :: "'b lib \<Rightarrow> pystr \<Rightarrow> 'b world \<Rightarrow> error + cover_data" where
  "parse_cover_letter l html_path w =
     (case open_soup l html_path w of
        Inl e \<Rightarrow> Inl e
      | Inr soup \<Rightarrow> parse_cover_letter_soup soup)"

text \<open>\<open>add_run(paragraph, text, bold, italic, color, size)\<close> of the cover letter.\<close>

definition cl_new_run :: "pystr \<Rightarrow> bool \<Rightarrow> bool \<Rightarrow> rgb option \<Rightarrow> length option \<Rightarrow> run" where
  "cl_new_run txt b it col sz =
     \<lparr> run_text = txt, bold = b, italic = it, font_color = col,
       font_size = (case sz of None \<Rightarrow> None | Some l \<Rightarrow> if nonzero l then Some l else None),
       font_name = None,
       all_caps = False \<rparr>"

definition cl_add_run :: "para \<Rightarrow> pystr \<Rightarrow> bool \<Rightarrow> bool \<Rightarrow> rgb option \<Rightarrow> length option \<Rightarrow> para" where
  "cl_add_run p txt b it col sz = p\<lparr>runs := runs p @ [cl_new_run txt b it col sz]\<rparr>"

text \<open>The contact row of the cover letter (lines 197 to 200).\<close>

fun cl_add_contacts :: "para \<Rightarrow> nat \<Rightarrow> pystr list \<Rightarrow> para" where
  "cl_add_contacts p i [] = p"
| "cl_add_contacts p i (contact # rest) =
     (let p = (if i > 0 then cl_add_run p (str ''    '') False False (Some WHITE) (Some (Pt 9)) else p);
          p = cl_add_run p contact False False (Some WHITE) (Some (Pt 9))
      in cl_add_contacts p (i + 1) rest)"

text \<open>The header of the cover letter (lines 162 to 200).\<close>

definition cl_build_header :: "'a doc_data_scheme \<Rightarrow> error + table" where
  "cl_build_header data =
     (let header_table = add_table 1 1;
          header_table = header_table\<lparr>tbl_alignment := Some 1\<rparr>;
          header_table = remove_table_borders header_table
      in case table_cell header_table 0 0 of
           Inl e \<Rightarrow> Inl e
         | Inr c \<Rightarrow>
             (let c = set_cell_shading c (str ''0D6E6E'');
                  c = set_cell_margins c 14 14 10 10;
                  header_table = header_table\<lparr>full_width := True\<rparr>
              in case cell_paragraphs c of
                   [] \<Rightarrow> Inl IndexError
                 | p # ps \<Rightarrow>
                     (let p = p\<lparr>alignment := Some CENTER\<rparr>;
                          p = p\<lparr>space_after := Some (Pt 2)\<rparr>;
                          p = p\<lparr>space_before := Some (Pt 4)\<rparr>;
                          p = cl_add_run p (name data) True False (Some WHITE) (Some (Pt 22));
                          t = empty_para;
                          t = t\<lparr>alignment := Some CENTER\<rparr>;
                          t = t\<lparr>space_after := Some (Pt 8)\<rparr>;
                          t = t\<lparr>space_before := Some (Pt 0)\<rparr>;
                          r = cl_new_run (title data) False False (Some WHITE) (Some (Pt 11));
                          r = r\<lparr>all_caps := True\<rparr>;
                          t = t\<lparr>runs := runs t @ [r]\<rparr>;
                          q = empty_para;
                          q = q\<lparr>alignment := Some CENTER\<rparr>;
                          q = q\<lparr>space_after := Some (Pt 4)\<rparr>;
                          q = q\<lparr>space_before := Some (Pt 0)\<rparr>;
                          q = cl_add_contacts q 0 (contacts data);
                          c = c\<lparr>cell_paragraphs := (p # ps) @ [t, q]\<rparr>
                      in Inr (put_cell header_table 0 0 c))))"

text \<open>
  One pass of the loop over the recipient lines (lines 221 to 229). \<open>all_lines\<close> is
  \<open>data["recipient_lines"]\<close>; its element 0 is read in the test.
\<close>

definition recipient_paragraph :: "pystr list \<Rightarrow> pystr \<Rightarrow> error + para" where
  "recipient_paragraph all_lines line =
     (let p = empty_para;
          p = p\<lparr>space_after := Some (Pt 1)\<rparr>;
          p = p\<lparr>space_before := Some (Pt 1)\<rparr>
      in case all_lines of
           [] \<Rightarrow> Inl IndexError
         | first_line # others \<Rightarrow>
             if line = first_line
             then Inr (cl_add_run p line True False (Some PRIMARY) (Some (Pt 11)))
             else Inr (cl_add_run p line False False (Some DARK) (Some (Pt 11))))"

fun add_recipient_lines :: "document \<Rightarrow> pystr list \<Rightarrow> pystr list \<Rightarrow> error + document" where
  "add_recipient_lines doc all_lines [] = Inr doc"
| "add_recipient_lines doc all_lines (line # rest) =
     (case recipient_paragraph all_lines line of
        Inl e \<Rightarrow> Inl e
      | Inr p \<Rightarrow> add_recipient_lines (doc @ [Paragraph p]) all_lines rest)"

text \<open>A body paragraph (lines 243 to 247).\<close>

definition body_paragraph :: "pystr \<Rightarrow> para" where
  "body_paragraph para_text =
     (let p = empty_para;
          p = p\<lparr>space_after := Some (Pt 10)\<rparr>;
          p = p\<lparr>space_before := Some (Pt 0)\<rparr>;
          p = p\<lparr>alignment := Some JUSTIFY\<rparr>;
          p = cl_add_run p para_text False False (Some DARK) (Some (Pt 11))
      in p)"

text \<open>
  \<open>build_docx\<close> of the cover letter up to the call of \<open>doc.save\<close>. The page margins
  and the \<open>Normal\<close> style (lines 144 to 157) are the same for every input and are left
  out.
\<close>

definition cl_build_document :: "cover_data \<Rightarrow> error + document" where
  "cl_build_document data =
     (case cl_build_header data of
        Inl e \<Rightarrow> Inl e
      | Inr header_table \<Rightarrow>
     (let doc = [Table header_table];
          p = empty_para;
          p = p\<lparr>alignment := Some RIGHT\<rparr>;
          p = p\<lparr>space_before := Some (Pt 18)\<rparr>;
          p = p\<lparr>space_after := Some (Pt 14)\<rparr>;
          p = cl_add_run p (date data) False False (Some GRAY) (Some (Pt 10));
          doc = doc @ [Paragraph p];
          doc = (if badge data \<noteq> []
                 then (let p = empty_para;
                           p = p\<lparr>space_after := Some (Pt 6)\<rparr>;
                           p = cl_add_run p (badge data) True False (Some PRIMARY) (Some (Pt 9))
                       in doc @ [Paragraph p])
                 else doc)
      in case add_recipient_lines doc (recipient_lines data) (recipient_lines data) of
           Inl e \<Rightarrow> Inl e
         | Inr doc \<Rightarrow>
     (let p = empty_para;
          p = p\<lparr>space_before := Some (Pt 14)\<rparr>;
          p = p\<lparr>space_after := Some (Pt 10)\<rparr>;
          p = cl_add_run p (salutation data) True False (Some ACCENT) (Some (Pt 11));
          doc = doc @ [Paragraph p];
          doc = doc @ map (\<lambda>para_text. Paragraph (body_paragraph para_text)) (paragraphs data);
          p = empty_para;
          p = p\<lparr>space_before := Some (Pt 14)\<rparr>;
          p = p\<lparr>space_after := Some (Pt 4)\<rparr>;
          p = cl_add_run p (regards data) False True (Some DARK) (Some (Pt 11));
          doc = doc @ [Paragraph p];
          p = empty_para;
          p = p\<lparr>space_after := Some (Pt 2)\<rparr>;
          p = cl_add_run p (signature data) True False (Some PRIMARY) (Some (Pt 14));
          doc = doc @ [Paragraph p];
          p = empty_para;
          p = p\<lparr>space_after := Some (Pt 0)\<rparr>;
          p = cl_add_run p (credential data) False False (Some GRAY) (Some (Pt 10));
          doc = doc @ [Paragraph p];
          p = empty_para;
          p = p\<lparr>space_before := Some (Pt 20)\<rparr>;
          p = p\<lparr>alignment := Some CENTER\<rparr>;
          p = add_bottom_border p (str ''E8F4F4'');
          doc = doc @ [Paragraph p];
          p = empty_para;
          p = p\<lparr>alignment := Some CENTER\<rparr>;
          p = p\<lparr>space_before := Some (Pt 8)\<rparr>;
          p = cl_add_run p (str ''View Resume: '') False False (Some GRAY) (Some (Pt 9));
          p = cl_add_run p (str ''mattbfit.net/resume.html'') True False (Some PRIMARY) (Some (Pt 9));
          p = cl_add_run p (str ''  |  '') False False (Some GRAY) (Some (Pt 9));
          p = cl_add_run p (str ''Training Videos: '') False False (Some GRAY) (Some (Pt 9));
          p = cl_add_run p (str ''mattbfit.net/#showcase'') True False (Some PRIMARY) (Some (Pt 9));
          doc = doc @ [Paragraph p]
      in Inr doc)))"

definition cl_build_docx :: "'b lib \<Rightarrow> cover_data \<Rightarrow> pystr \<Rightarrow> 'b world \<Rightarrow> error + 'b world" where
  "cl_build_docx l data output_path w =
     (case cl_build_document data of
        Inl e \<Rightarrow> Inl e
      | Inr doc \<Rightarrow> save l doc output_path w)"

text \<open>The cover-letter program (lines 285 to 291).\<close>

definition cover_letter_main :: "'b lib \<Rightarrow> pystr list \<Rightarrow> 'b world \<Rightarrow> nat \<times> pystr list \<times> 'b world" where
  "cover_letter_main l argv w =
     (let html_path = arg_or argv 1 (str ''neuroworks.html'');
          output_path = arg_or argv 2 (str ''neuroworks.docx'')
      in case parse_cover_letter l html_path w of
           Inl e \<Rightarrow> (1, [], w)
         | Inr data \<Rightarrow>
             (case cl_build_docx l data output_path w of
                Inl e \<Rightarrow> (1, [], w)
              | Inr w' \<Rightarrow> (0, [str ''Generated '' @ output_path], w')))"

section \<open>Reading a rendered document\<close>

text \<open>
  The functions of this section are not part of the scripts: they read runs, paragraphs
  and job records off a document, so that properties of the rendering can be stated on
  what a reader of the document finds.
\<close>

text \<open>The runs of the first paragraph of the cell at a row and a column (none when there is no such cell).\<close>

definition cell_runs :: "table \<Rightarrow> nat \<Rightarrow> nat \<Rightarrow> run list" where
  "cell_runs t row_idx col_idx =
     (case table_cell t row_idx col_idx of
        Inl e \<Rightarrow> []
      | Inr c \<Rightarrow> (case cell_paragraphs c of [] \<Rightarrow> [] | p # ps \<Rightarrow> runs p))"

text \<open>The paragraphs of the cell at a row and a column (none when there is no such cell).\<close>

definition cell_paragraphs_at :: "table \<Rightarrow> nat \<Rightarrow> nat \<Rightarrow> para list" where
  "cell_paragraphs_at t row_idx col_idx =
     (case table_cell t row_idx col_idx of
        Inl e \<Rightarrow> []
      | Inr c \<Rightarrow> cell_paragraphs c)"

text \<open>The runs of the contact line: the third paragraph of the only cell of a header table.\<close>

definition contact_line :: "table \<Rightarrow> run list" where
  "contact_line t =
     (case table_cell t 0 0 of
        Inl e \<Rightarrow> []
      | Inr c \<Rightarrow> (case cell_paragraphs c of [p, q, r] \<Rightarrow> runs r | _ \<Rightarrow> []))"

text \<open>The runs of a paragraph block (none for a table).\<close>

fun paragraph_runs :: "block \<Rightarrow> run list" where
  "paragraph_runs (Paragraph p) = runs p"
| "paragraph_runs (Table t) = []"






section \<open>Closed forms of the rendering loops\<close>

text \<open>
  The values that the loops and steps of the renderers are proved to compute. They are
  used in the lemmas; the properties of the claims are stated on the functions of the
  scripts.
\<close>

text \<open>The runs of a contact line: the contact runs with one spacer run between neighbours.\<close>

definition contact_run :: "pystr \<Rightarrow> run" where
  "contact_run contact = new_run contact False (Some WHITE) (Some (Pt 9)) None"

definition spacer_run :: run where
  "spacer_run = new_run (str ''    '') False (Some WHITE) (Some (Pt 9)) None"

fun spaced :: "run list \<Rightarrow> run list" where
  "spaced [] = []"
| "spaced [r] = [r]"
| "spaced (r # r' # rs) = r # spacer_run # spaced (r' # rs)"

text \<open>The cell of the skills grid that holds a skill.\<close>

definition skill_cell :: "pystr \<Rightarrow> cell" where
  "skill_cell skill = empty_cell\<lparr>cell_paragraphs :=
     [empty_para\<lparr>space_before := Some (Pt 2), space_after := Some (Pt 2),
        runs := [new_run [10003, 32] True (Some PRIMARY) (Some (Pt 10)) None,
                 new_run skill False (Some DARK) (Some (Pt 10)) None]\<rparr>]\<rparr>"

text \<open>The header table of a job, and the blocks of a job entry.\<close>

definition job_table :: "job \<Rightarrow> table" where
  "job_table j =
     \<lparr> tbl_alignment = None, borderless = True, full_width = False, n_cols = 2,
       cells = [ empty_cell\<lparr>cell_paragraphs :=
                   [empty_para\<lparr>space_before := Some (Pt 4), space_after := Some (Pt 2),
                      runs := new_run (job_title j) True (Some ACCENT) (Some (Pt 10)) None #
                        (if job_company j \<noteq> []
                         then [new_run (str '' | '') False (Some DARK) (Some (Pt 10)) None,
                               new_run (job_company j) True (Some PRIMARY) (Some (Pt 10)) None]
                         else [])\<rparr>]\<rparr>,
                 empty_cell\<lparr>cell_width := Some 2160, cell_paragraphs :=
                   [empty_para\<lparr>alignment := Some RIGHT, space_before := Some (Pt 4),
                      space_after := Some (Pt 2),
                      runs := [new_run (job_date j) False (Some (0x66, 0x66, 0x66)) (Some (Pt 9)) None]\<rparr>]\<rparr> ] \<rparr>"

definition job_blocks :: "job \<Rightarrow> block list" where
  "job_blocks j = Table (job_table j) # map (\<lambda>b. Paragraph (bullet_paragraph b)) (job_bullets j)"

text \<open>The paragraph of a recipient line, given the first line.\<close>

definition recipient_block :: "pystr \<Rightarrow> pystr \<Rightarrow> block" where
  "recipient_block first_line line =
     Paragraph (empty_para\<lparr>space_before := Some (Pt 1), space_after := Some (Pt 1),
            runs := [if line = first_line
                     then cl_new_run line True False (Some PRIMARY) (Some (Pt 11))
                     else cl_new_run line False False (Some DARK) (Some (Pt 11))]\<rparr>)"

section \<open>Classes of input\<close>

text \<open>
  Predicates on the input tree that the properties speak about. That the two
  \<open>required_missing\<close> predicates are exactly the inputs on which extraction raises is
  proved below (\<open>parse_resume_soup_fails_iff\<close>, \<open>parse_cover_letter_soup_fails_iff\<close>).
\<close>

text \<open>
  The text of the first section-title element below a section, when there is one, and
  the sections that \<open>parse_resume\<close> has no branch for: no title element, or a title
  that is none of the three strings.
\<close>

definition section_title_text :: "node \<Rightarrow> pystr option" where
  "section_title_text sect =
     (case find_tag sect (str ''div'') (Some (str ''section-title'')) of
        None \<Rightarrow> None
      | Some title_el \<Rightarrow> Some (get_text [] title_el))"

definition unrecognised :: "node \<Rightarrow> bool" where
  "unrecognised sect =
     (case section_title_text sect of
        None \<Rightarrow> True
      | Some title_text \<Rightarrow>
          title_text \<noteq> str ''Professional Experience'' \<and>
          title_text \<noteq> str ''Military Service'' \<and>
          title_text \<noteq> str ''Education & Certifications'')"

text \<open>
  A section that lacks an element its branch needs: a job without a job-header in a
  section of jobs, or no two-column element with two direct \<open>div\<close> children in the
  education section.
\<close>

definition section_malformed :: "node \<Rightarrow> bool" where
  "section_malformed sect =
     (case section_title_text sect of
        None \<Rightarrow> False
      | Some title_text \<Rightarrow>
          if title_text = str ''Professional Experience'' \<or> title_text = str ''Military Service''
          then list_ex (\<lambda>job_div. find_tag job_div (str ''div'') (Some (str ''job-header'')) = None)
                 (find_all sect (str ''div'') (Some (str ''job'')))
          else if title_text = str ''Education & Certifications''
          then (case find_tag sect (str ''div'') (Some (str ''two-column'')) of
                  None \<Rightarrow> True
                | Some two_col \<Rightarrow> length (find_all_children two_col (str ''div'') None) < 2)
          else False)"

text \<open>A resume tree in which an element that \<open>parse_resume\<close> needs is absent.\<close>

definition resume_required_missing :: "node \<Rightarrow> bool" where
  "resume_required_missing soup =
     (case find_tag soup (str ''div'') (Some (str ''header'')) of
        None \<Rightarrow> True
      | Some header \<Rightarrow>
          find_tag header (str ''h1'') None = None
        \<or> find_tag header (str ''div'') (Some (str ''title'')) = None
        \<or> find_tag header (str ''div'') (Some (str ''contact-row'')) = None
        \<or> find_tag soup (str ''div'') (Some (str ''skills-grid'')) = None
        \<or> list_ex section_malformed (find_all soup (str ''div'') (Some (str ''section''))))"

text \<open>A cover-letter tree in which an element that \<open>parse_cover_letter\<close> needs is absent.\<close>

definition cover_required_missing :: "node \<Rightarrow> bool" where
  "cover_required_missing soup =
     (case find_tag soup (str ''div'') (Some (str ''header'')) of
        None \<Rightarrow> True
      | Some header \<Rightarrow>
          find_tag header (str ''h1'') None = None
        \<or> find_tag header (str ''div'') (Some (str ''title'')) = None
        \<or> find_tag header (str ''div'') (Some (str ''contact-row'')) = None
        \<or> (case find_tag soup (str ''div'') (Some (str ''content'')) of
              None \<Rightarrow> True
            | Some content \<Rightarrow>
                find_tag content (str ''div'') (Some (str ''date'')) = None
              \<or> find_tag content (str ''div'') (Some (str ''recipient'')) = None
              \<or> find_tag content (str ''div'') (Some (str ''salutation'')) = None
              \<or> find_tag content (str ''div'') (Some (str ''body'')) = None
              \<or> (case find_tag content (str ''div'') (Some (str ''closing'')) of
                    None \<Rightarrow> True
                  | Some closing \<Rightarrow>
                      find_tag closing (str ''div'') (Some (str ''regards'')) = None
                    \<or> find_tag closing (str ''div'') (Some (str ''signature'')) = None
                    \<or> find_tag closing (str ''div'') (Some (str ''credential'')) = None)))"

section \<open>Example inputs\<close>

text \<open>A job element with a header that holds a title only: no company, no date, no bullets.\<close>

definition ex_job_header :: node where
  "ex_job_header =
     Tag (str ''div'') [str ''job-header'']
       [Tag (str ''span'') [str ''job-title''] [NavigableString (str '' Engineer '')]]"

definition ex_job_div :: node where
  "ex_job_div = Tag (str ''div'') [str ''job''] [ex_job_header]"

text \<open>A resume record and a cover-letter record.\<close>

definition ex_job :: job where
  "ex_job = \<lparr> job_title = str ''Lead'', job_company = str ''Acme'', job_date = str ''2020'',
              job_bullets = [str ''Built it'', str ''Ran it''] \<rparr>"

definition ex_resume_data :: resume_data where
  "ex_resume_data =
     \<lparr> name = str ''Jane Doe'', title = str ''Operations Lead'',
       contacts = [str ''jane@x.org'', str ''555-0100'', str ''Denver''],
       skills = [str ''Planning'', str ''Budgets'', str ''Hiring''],
       jobs = [ex_job],
       military = [],
       education = \<lparr> edu_left = None, edu_right = None \<rparr> \<rparr>"

definition ex_cover_data :: cover_data where
  "ex_cover_data =
     \<lparr> name = str ''Jane Doe'', title = str ''Operations Lead'',
       contacts = [str ''jane@x.org'', str ''555-0100''],
       date = str ''May 1'',
       badge = [],
       recipient_lines = [str ''Acme'', str ''Attn: Hiring''],
       salutation = str ''Dear team,'',
       paragraphs = [str ''Hello.''],
       regards = str ''Regards,'',
       signature = str ''Jane Doe'',
       credential = str ''PMP'' \<rparr>"

text \<open>
  A cover letter whose recipient block holds three lines, the third equal to the first:
  \<^verbatim>\<open><div class="recipient">Acme<br>Attn: Hiring<br>Acme</div>\<close>.
\<close>

definition ex_cover_soup :: node where
  "ex_cover_soup =
     Tag (str ''[document]'') []
       [Tag (str ''html'') []
          [Tag (str ''body'') []
             [Tag (str ''div'') [str ''header'']
                [Tag (str ''h1'') [] [NavigableString (str ''Jane Doe'')],
                 Tag (str ''div'') [str ''title''] [NavigableString (str ''Operations Lead'')],
                 Tag (str ''div'') [str ''contact-row'']
                   [NavigableString [10, 32],
                    Tag (str ''span'') [] [NavigableString (str ''jane@x.org'')],
                    NavigableString [10, 32],
                    Tag (str ''span'') [] [NavigableString (str ''555-0100'')],
                    NavigableString [10]]],
              Tag (str ''div'') [str ''content'']
                [Tag (str ''div'') [str ''date''] [NavigableString (str ''May 1'')],
                 Tag (str ''div'') [str ''recipient'']
                   [NavigableString (str ''Acme''),
                    Tag (str ''br'') [] [],
                    NavigableString (str ''Attn: Hiring''),
                    Tag (str ''br'') [] [],
                    NavigableString (str ''Acme'')],
                 Tag (str ''div'') [str ''salutation''] [NavigableString (str ''Dear team,'')],
                 Tag (str ''div'') [str ''body''] [Tag (str ''p'') [] [NavigableString (str ''Hello.'')]],
                 Tag (str ''div'') [str ''closing'']
                   [Tag (str ''div'') [str ''regards''] [NavigableString (str ''Regards,'')],
                    Tag (str ''div'') [str ''signature''] [NavigableString (str ''Jane Doe'')],
                    Tag (str ''div'') [str ''credential''] [NavigableString (str ''PMP'')]]]]]]"

text \<open>
  A resume with three sections: one without a title element, one titled Hobbies (with a
  job element inside), and the professional experience with one job. It has no
  education section.
\<close>

definition ex_untitled_section :: node where
  "ex_untitled_section =
     Tag (str ''div'') [str ''section''] [Tag (str ''p'') [] [NavigableString (str ''About me'')]]"

definition ex_hobbies_section :: node where
  "ex_hobbies_section =
     Tag (str ''div'') [str ''section'']
       [Tag (str ''div'') [str ''section-title''] [NavigableString (str ''Hobbies'')],
        Tag (str ''div'') [str ''job'']
          [Tag (str ''div'') [str ''job-header'']
             [Tag (str ''span'') [str ''job-title''] [NavigableString (str ''Chess'')]]]]"

definition ex_experience_section :: node where
  "ex_experience_section =
     Tag (str ''div'') [str ''section'']
       [Tag (str ''div'') [str ''section-title''] [NavigableString (str ''Professional Experience'')],
        Tag (str ''div'') [str ''job'']
          [Tag (str ''div'') [str ''job-header'']
             [Tag (str ''span'') [str ''job-title''] [NavigableString (str ''Lead'')],
              Tag (str ''span'') [str ''job-company''] [NavigableString (str ''Acme'')],
              Tag (str ''span'') [str ''job-date''] [NavigableString (str ''2020'')]],
           Tag (str ''ul'') [str ''job-bullets'']
             [Tag (str ''li'') [] [NavigableString (str ''Built it'')],
              Tag (str ''li'') [] [NavigableString (str '' Ran it '')]]]]"

definition ex_header_block :: node where
  "ex_header_block =
     Tag (str ''div'') [str ''header'']
       [Tag (str ''h1'') [] [NavigableString (str ''Jane Doe'')],
        Tag (str ''div'') [str ''title''] [NavigableString (str ''Operations Lead'')],
        Tag (str ''div'') [str ''contact-row'']
          [NavigableString [10, 32],
           Tag (str ''span'') [] [NavigableString (str ''jane@x.org'')],
           Comment (str ''phone''),
           Tag (str ''span'') [] [NavigableString (str ''555-0100'')],
           Tag (str ''span'') [] [NavigableString (str ''Denver'')]]]"

definition ex_skills_grid :: node where
  "ex_skills_grid =
     Tag (str ''div'') [str ''skills-grid'']
       [Tag (str ''div'') [str ''skill-item''] [NavigableString (str ''Planning'')],
        Tag (str ''div'') [str ''skill-item''] [NavigableString (str ''Budgets'')],
        Tag (str ''div'') [str ''skill-item''] [NavigableString (str ''Hiring'')]]"

definition ex_resume_soup :: node where
  "ex_resume_soup =
     Tag (str ''[document]'') []
       [Tag (str ''html'') []
          [Tag (str ''body'') []
             [ex_header_block, ex_skills_grid,
              ex_untitled_section, ex_hobbies_section, ex_experience_section]]]"

text \<open>The same resume without the professional experience: no section has a branch.\<close>

definition ex_plain_soup :: node where
  "ex_plain_soup =
     Tag (str ''[document]'') []
       [Tag (str ''html'') []
          [Tag (str ''body'') []
             [ex_header_block, ex_skills_grid, ex_untitled_section, ex_hobbies_section]]]"

text \<open>
  A tree without a header block; a library for which a file is the tree of an HTML text
  or a saved document, and that fails to decode a saved document as text; and file
  systems that hold the trees above.
\<close>

definition ex_headless_soup :: node where
  "ex_headless_soup =
     Tag (str ''[document]'') []
       [Tag (str ''html'') []
          [Tag (str ''body'') [] [Tag (str ''div'') [str ''content''] []]]]"

definition ex_lib :: "(node + document) lib" where
  "ex_lib =
     \<lparr> read_soup = (\<lambda>b. case b of Inl soup \<Rightarrow> Inr soup | Inr doc \<Rightarrow> Inl UnicodeDecodeError),
       docx_bytes = Inr \<rparr>"

definition ex_broken_world :: "(node + document) world" where
  "ex_broken_world = \<lparr> files = [str ''broken.html'' \<mapsto> Inl ex_headless_soup], unwritable = {} \<rparr>"



section \<open>Properties\<close>

subsection \<open>Closed forms of the rendering steps\<close>

lemma skill_index: "i mod 2 + i div 2 * 2 = (i::nat)"
  by simp

lemma table_cell_skill:
  "n_cols t = 2 \<Longrightarrow> i < length (cells t) \<Longrightarrow> table_cell t (i div 2) (i mod 2) = Inr (cells t ! i)"
  by (simp add: table_cell_def)

lemma put_cell_skill:
  "n_cols t = 2 \<Longrightarrow> put_cell t (i div 2) (i mod 2) c = t\<lparr>cells := (cells t)[i := c]\<rparr>"
  by (simp add: put_cell_def)

lemma fill_skills_step:
  assumes "n_cols t = 2" "i < length (cells t)" "cells t ! i = empty_cell"
  shows "fill_skills t i (skill # rest) =
           fill_skills (t\<lparr>cells := (cells t)[i := skill_cell skill]\<rparr>) (Suc i) rest"
  using assms
  by (simp add: table_cell_skill put_cell_skill Let_def skill_cell_def empty_cell_def add_run_def
      empty_para_def)

lemma fill_skills_cells:
  assumes "n_cols t = 2" "i + length xs \<le> length (cells t)"
    and "\<forall>k. i \<le> k \<and> k < i + length xs \<longrightarrow> cells t ! k = empty_cell"
  shows "fill_skills t i xs =
           Inr (t\<lparr>cells := take i (cells t) @ map skill_cell xs @ drop (i + length xs) (cells t)\<rparr>)"
  using assms
proof (induction xs arbitrary: t i)
  case Nil
  then show ?case by simp
next
  case (Cons x xs)
  let ?t = "t\<lparr>cells := (cells t)[i := skill_cell x]\<rparr>"
  have i: "i < length (cells t)" using Cons.prems(2) by simp
  have e: "cells t ! i = empty_cell" using Cons.prems(3) by simp
  have step: "fill_skills t i (x # xs) = fill_skills ?t (Suc i) xs"
    using fill_skills_step [OF Cons.prems(1) i e] .
  have a: "n_cols ?t = 2" using Cons.prems(1) by simp
  have b: "Suc i + length xs \<le> length (cells ?t)" using Cons.prems(2) by simp
  have c: "\<forall>k. Suc i \<le> k \<and> k < Suc i + length xs \<longrightarrow> cells ?t ! k = empty_cell"
    using Cons.prems(3) by simp
  have "fill_skills ?t (Suc i) xs =
      Inr (?t\<lparr>cells := take (Suc i) (cells ?t) @ map skill_cell xs @ drop (Suc i + length xs) (cells ?t)\<rparr>)"
    using Cons.IH [OF a b c] .
  moreover have "take (Suc i) (cells ?t) = take i (cells t) @ [skill_cell x]"
    using i by (simp add: take_Suc_conv_app_nth)
  moreover have "drop (Suc i + length xs) (cells ?t) = drop (i + length (x # xs)) (cells t)"
    by simp
  ultimately show ?case using step by simp
qed

lemma build_skills_eq:
  "build_skills xs =
     Inr \<lparr> tbl_alignment = None, borderless = True, full_width = False, n_cols = 2,
           cells = map skill_cell xs @ replicate (length xs mod 2) empty_cell \<rparr>"
proof -
  let ?t = "remove_table_borders (add_table ((length xs + 1) div 2) 2)"
  have n: "n_cols ?t = 2" by (simp add: remove_table_borders_def add_table_def)
  have len: "length (cells ?t) = (length xs + 1) div 2 * 2"
    by (simp add: remove_table_borders_def add_table_def)
  have le: "0 + length xs \<le> length (cells ?t)" using len by presburger
  have emp: "\<forall>k. 0 \<le> k \<and> k < 0 + length xs \<longrightarrow> cells ?t ! k = empty_cell"
    using le by (simp add: remove_table_borders_def add_table_def)
  have d: "drop (length xs) (cells ?t) = replicate (length xs mod 2) empty_cell"
  proof -
    have "(length xs + 1) div 2 * 2 - length xs = length xs mod 2" by presburger
    then show ?thesis by (simp add: remove_table_borders_def add_table_def)
  qed
  from fill_skills_cells [OF n le emp] d show ?thesis
    by (simp add: build_skills_def Let_def remove_table_borders_def add_table_def)
qed




lemma new_run_cl: "cl_new_run txt b False col sz = new_run txt b col sz None"
  by (simp add: cl_new_run_def new_run_def)

lemma add_contacts_later:
  "0 < i \<Longrightarrow> add_contacts p i cs = p\<lparr>runs := runs p @ concat (map (\<lambda>c. [spacer_run, contact_run c]) cs)\<rparr>"
  by (induction cs arbitrary: p i) (simp_all add: Let_def add_run_def spacer_run_def contact_run_def)

lemma add_contacts_first:
  "add_contacts p 0 (c # cs) =
     p\<lparr>runs := runs p @ contact_run c # concat (map (\<lambda>c. [spacer_run, contact_run c]) cs)\<rparr>"
  by (simp add: Let_def add_contacts_later add_run_def contact_run_def)

lemma cl_add_contacts_later:
  "0 < i \<Longrightarrow> cl_add_contacts p i cs = p\<lparr>runs := runs p @ concat (map (\<lambda>c. [spacer_run, contact_run c]) cs)\<rparr>"
  by (induction cs arbitrary: p i)
     (simp_all add: Let_def cl_add_run_def spacer_run_def contact_run_def new_run_cl)

lemma cl_add_contacts_first:
  "cl_add_contacts p 0 (c # cs) =
     p\<lparr>runs := runs p @ contact_run c # concat (map (\<lambda>c. [spacer_run, contact_run c]) cs)\<rparr>"
  by (simp add: Let_def cl_add_contacts_later cl_add_run_def contact_run_def new_run_cl)

lemma spaced_Cons: "spaced (r # rs) = r # concat (map (\<lambda>x. [spacer_run, x]) rs)"
  by (induction rs arbitrary: r) simp_all

lemma add_contacts_spaced:
  "add_contacts p 0 cs = p\<lparr>runs := runs p @ spaced (map contact_run cs)\<rparr>"
proof (cases cs)
  case Nil
  then show ?thesis by simp
next
  case (Cons c rest)
  then show ?thesis
    by (simp add: add_contacts_first spaced_Cons comp_def del: add_contacts.simps)
qed

lemma cl_add_contacts_spaced:
  "cl_add_contacts p 0 cs = p\<lparr>runs := runs p @ spaced (map contact_run cs)\<rparr>"
proof (cases cs)
  case Nil
  then show ?thesis by simp
next
  case (Cons c rest)
  then show ?thesis
    by (simp add: cl_add_contacts_first spaced_Cons comp_def del: cl_add_contacts.simps)
qed

lemma length_spaced: "length (spaced rs) = 2 * length rs - 1"
  by (induction rs rule: spaced.induct) simp_all

lemma spaced_even: "i < length rs \<Longrightarrow> spaced rs ! (2 * i) = rs ! i"
proof (induction rs arbitrary: i rule: spaced.induct)
  case 1
  then show ?case by simp
next
  case (2 r)
  then show ?case by simp
next
  case (3 r r' rs)
  show ?case
  proof (cases i)
    case 0
    then show ?thesis by simp
  next
    case (Suc k)
    with 3 show ?thesis by simp
  qed
qed

lemma spaced_odd: "Suc i < length rs \<Longrightarrow> spaced rs ! (2 * i + 1) = spacer_run"
proof (induction rs arbitrary: i rule: spaced.induct)
  case 1
  then show ?case by simp
next
  case (2 r)
  then show ?case by simp
next
  case (3 r r' rs)
  show ?case
  proof (cases i)
    case 0
    then show ?thesis by simp
  next
    case (Suc k)
    with 3 show ?thesis by simp
  qed
qed

lemma build_header_eq:
  "build_header data =
     Inr \<lparr> tbl_alignment = Some 1, borderless = True, full_width = True, n_cols = 1,
           cells = [\<lparr> cell_shading = Some (str ''0D6E6E''), cell_margins = Some (280, 280, 200, 200),
                      cell_width = None,
                      cell_paragraphs =
                        [empty_para\<lparr>alignment := Some CENTER, space_before := Some (Pt 4),
                           space_after := Some (Pt 2),
                           runs := [new_run (name data) True (Some WHITE) (Some (Pt 22)) None]\<rparr>,
                         empty_para\<lparr>alignment := Some CENTER, space_before := Some (Pt 0),
                           space_after := Some (Pt 8),
                           runs := [(new_run (title data) False (Some WHITE) (Some (Pt 11)) None)\<lparr>all_caps := True\<rparr>]\<rparr>,
                         empty_para\<lparr>alignment := Some CENTER, space_before := Some (Pt 0),
                           space_after := Some (Pt 4),
                           runs := spaced (map contact_run (contacts data))\<rparr>] \<rparr>] \<rparr>"
  by (simp add: build_header_def table_cell_def Let_def put_cell_def set_cell_shading_def
      set_cell_margins_def add_run_def add_contacts_spaced
      empty_cell_def empty_para_def add_table_def remove_table_borders_def)

lemma cl_build_header_eq: "cl_build_header data = build_header data"
  by (simp add: build_header_def cl_build_header_def cl_add_run_def add_run_def new_run_cl
      add_contacts_spaced cl_add_contacts_spaced Let_def split: sum.splits list.splits)




lemma add_job_entry_eq: "add_job_entry doc j = Inr (doc @ job_blocks j)"
  by (simp add: add_job_entry_def table_cell_def Let_def put_cell_def set_cell_width_def add_run_def
      empty_cell_def empty_para_def add_table_def remove_table_borders_def numeral_2_eq_2
      job_blocks_def job_table_def)

lemma add_job_entries_eq: "add_job_entries doc js = Inr (doc @ concat (map job_blocks js))"
  by (induction js arbitrary: doc) (simp_all add: add_job_entry_eq)

lemma cell_runs_job_table_left:
  "cell_runs (job_table j) 0 0 =
     new_run (job_title j) True (Some ACCENT) (Some (Pt 10)) None #
       (if job_company j \<noteq> []
        then [new_run (str '' | '') False (Some DARK) (Some (Pt 10)) None,
              new_run (job_company j) True (Some PRIMARY) (Some (Pt 10)) None]
        else [])"
  by (simp add: cell_runs_def table_cell_def job_table_def)








lemma build_education_eq:
  "build_education edu =
     Inr \<lparr> tbl_alignment = None, borderless = True, full_width = False, n_cols = 2,
           cells = [ empty_cell\<lparr>cell_paragraphs :=
                       empty_para\<lparr>space_after := Some (Pt 4),
                          runs := [new_run (str ''Education'') True (Some DARK) (Some (Pt 10)) None]\<rparr> #
                       map cert_paragraph (case edu_left edu of Some items \<Rightarrow> items | None \<Rightarrow> [])\<rparr>,
                     empty_cell\<lparr>cell_paragraphs :=
                       empty_para\<lparr>space_after := Some (Pt 4),
                          runs := [new_run (str ''Certifications'') True (Some DARK) (Some (Pt 10)) None]\<rparr> #
                       map cert_paragraph (case edu_right edu of Some items \<Rightarrow> items | None \<Rightarrow> [])\<rparr> ] \<rparr>"
  by (simp add: build_education_def table_cell_def Let_def put_cell_def add_run_def
      empty_cell_def empty_para_def add_table_def remove_table_borders_def numeral_2_eq_2)

lemma add_section_heading_append: "add_section_heading doc txt = doc @ add_section_heading [] txt"
  by (simp add: add_section_heading_def Let_def)

lemma add_spacer_append: "add_spacer doc pts = doc @ add_spacer [] pts"
  by (simp add: add_spacer_def Let_def)

lemma build_header_ok: "\<exists>t. build_header data = Inr t"
  by (simp add: build_header_eq)

lemma build_skills_ok: "\<exists>t. build_skills xs = Inr t"
  by (simp add: build_skills_eq)

lemma build_education_ok: "\<exists>t. build_education edu = Inr t"
  by (simp add: build_education_eq)

lemma build_document_eq:
  assumes "build_header data = Inr h" "build_skills (skills data) = Inr s"
    "build_education (education data) = Inr e"
  shows "build_document data =
     Inr ([Table h, Paragraph (empty_para\<lparr>space_before := Some (Pt 6), space_after := Some (Pt 0)\<rparr>)]
          @ add_section_heading [] (str ''KEY SKILLS'')
          @ [Table s] @ add_spacer [] 4
          @ add_section_heading [] (str ''PROFESSIONAL EXPERIENCE'')
          @ concat (map job_blocks (jobs data))
          @ add_section_heading [] (str ''MILITARY SERVICE'')
          @ concat (map job_blocks (military data))
          @ add_section_heading [] (str ''EDUCATION & CERTIFICATIONS'')
          @ [Table e])"
  using assms
  by (simp add: build_document_def Let_def add_job_entries_eq
      add_section_heading_append [of "_ @ _"] add_section_heading_append [of "_ # _"]
      add_spacer_append [of "_ @ _"] add_spacer_append [of "_ # _"])

lemma build_document_ok: "\<exists>doc. build_document data = Inr doc"
proof -
  obtain h s e where "build_header data = Inr h" "build_skills (skills data) = Inr s"
    "build_education (education data) = Inr e"
    using build_header_ok build_skills_ok build_education_ok by metis
  then show ?thesis by (simp add: build_document_eq)
qed

lemma recipient_paragraph_ok:
  "recipient_paragraph (first_line # others) line =
     Inr (empty_para\<lparr>space_before := Some (Pt 1), space_after := Some (Pt 1),
            runs := [if line = first_line
                     then cl_new_run line True False (Some PRIMARY) (Some (Pt 11))
                     else cl_new_run line False False (Some DARK) (Some (Pt 11))]\<rparr>)"
  by (simp add: recipient_paragraph_def Let_def cl_add_run_def empty_para_def)

lemma add_recipient_lines_cons:
  "add_recipient_lines doc (first_line # others) ls =
     Inr (doc @ map (recipient_block first_line) ls)"
  by (induction ls arbitrary: doc) (simp_all add: recipient_paragraph_ok recipient_block_def)

lemma add_recipient_lines_eq:
  "add_recipient_lines doc ls ls = Inr (doc @ map (recipient_block (hd ls)) ls)"
  by (cases ls) (simp_all add: add_recipient_lines_cons del: add_recipient_lines.simps(2))

lemma cl_build_document_eq:
  assumes "cl_build_header data = Inr h"
    "add_recipient_lines [] (recipient_lines data) (recipient_lines data) = Inr rs"
  shows "cl_build_document data =
     Inr (Table h #
          Paragraph (empty_para\<lparr>alignment := Some RIGHT, space_before := Some (Pt 18),
             space_after := Some (Pt 14),
             runs := [cl_new_run (date data) False False (Some GRAY) (Some (Pt 10))]\<rparr>) #
          (if badge data \<noteq> []
           then [Paragraph (empty_para\<lparr>space_after := Some (Pt 6),
                   runs := [cl_new_run (badge data) True False (Some PRIMARY) (Some (Pt 9))]\<rparr>)]
           else []) @
          rs @
          Paragraph (empty_para\<lparr>space_before := Some (Pt 14), space_after := Some (Pt 10),
             runs := [cl_new_run (salutation data) True False (Some ACCENT) (Some (Pt 11))]\<rparr>) #
          map (\<lambda>para_text. Paragraph (body_paragraph para_text)) (paragraphs data) @
          [Paragraph (empty_para\<lparr>space_before := Some (Pt 14), space_after := Some (Pt 4),
             runs := [cl_new_run (regards data) False True (Some DARK) (Some (Pt 11))]\<rparr>),
           Paragraph (empty_para\<lparr>space_after := Some (Pt 2),
             runs := [cl_new_run (signature data) True False (Some PRIMARY) (Some (Pt 14))]\<rparr>),
           Paragraph (empty_para\<lparr>space_after := Some (Pt 0),
             runs := [cl_new_run (credential data) False False (Some GRAY) (Some (Pt 10))]\<rparr>),
           Paragraph (empty_para\<lparr>alignment := Some CENTER, space_before := Some (Pt 20),
             bottom_border := Some (str ''E8F4F4'')\<rparr>),
           Paragraph (empty_para\<lparr>alignment := Some CENTER, space_before := Some (Pt 8),
             runs := [cl_new_run (str ''View Resume: '') False False (Some GRAY) (Some (Pt 9)),
                      cl_new_run (str ''mattbfit.net/resume.html'') True False (Some PRIMARY) (Some (Pt 9)),
                      cl_new_run (str ''  |  '') False False (Some GRAY) (Some (Pt 9)),
                      cl_new_run (str ''Training Videos: '') False False (Some GRAY) (Some (Pt 9)),
                      cl_new_run (str ''mattbfit.net/#showcase'') True False (Some PRIMARY) (Some (Pt 9))]\<rparr>)])"
proof -
  have rs: "rs = map (recipient_block (hd (recipient_lines data))) (recipient_lines data)"
    using assms(2) by (simp add: add_recipient_lines_eq)
  show ?thesis
    using assms(1)
    by (simp add: cl_build_document_def Let_def add_recipient_lines_eq rs cl_add_run_def
        add_bottom_border_def empty_para_def)
qed

lemma add_recipient_lines_ok: "\<exists>rs. add_recipient_lines [] ls ls = Inr rs \<and> length rs = length ls"
  by (simp add: add_recipient_lines_eq)


subsection \<open>When extraction fails\<close>

lemma parse_job_fails_iff:
  "(\<exists>e. parse_job job_div = Inl e) \<longleftrightarrow> find_tag job_div (str ''div'') (Some (str ''job-header'')) = None"
  by (simp add: parse_job_def Let_def split: option.splits)

lemma parse_job_loop_fails_iff:
  "(\<exists>e. parse_job_loop acc ds = Inl e) \<longleftrightarrow>
     list_ex (\<lambda>job_div. find_tag job_div (str ''div'') (Some (str ''job-header'')) = None) ds"
proof (induction ds arbitrary: acc)
  case Nil
  then show ?case by simp
next
  case (Cons d ds)
  show ?case
  proof (cases "parse_job d")
    case (Inl e)
    then have "find_tag d (str ''div'') (Some (str ''job-header'')) = None"
      using parse_job_fails_iff [of d] by simp
    with Inl show ?thesis by simp
  next
    case (Inr j)
    then have "find_tag d (str ''div'') (Some (str ''job-header'')) \<noteq> None"
      using parse_job_fails_iff [of d] by auto
    with Inr Cons.IH [of "acc @ [j]"] show ?thesis by auto
  qed
qed

lemma parse_section_fails_iff:
  "(\<exists>e. parse_section data sect = Inl e) \<longleftrightarrow> section_malformed sect"
proof (cases "find_tag sect (str ''div'') (Some (str ''section-title''))")
  case None
  then show ?thesis by (simp add: parse_section_def section_malformed_def section_title_text_def)
next
  case (Some title_el)
  let ?t = "get_text [] title_el"
  let ?js = "find_all sect (str ''div'') (Some (str ''job''))"
  have d: "str ''Professional Experience'' \<noteq> str ''Military Service''"
    "str ''Professional Experience'' \<noteq> str ''Education & Certifications''"
    "str ''Military Service'' \<noteq> str ''Education & Certifications''"
    by (simp_all add: str_def)
  consider (pe) "?t = str ''Professional Experience''" | (ms) "?t = str ''Military Service''"
    | (ec) "?t = str ''Education & Certifications''"
    | (other) "?t \<noteq> str ''Professional Experience''" "?t \<noteq> str ''Military Service''"
        "?t \<noteq> str ''Education & Certifications''"
    by blast
  then show ?thesis
  proof cases
    case pe
    have "(\<exists>e. parse_section data sect = Inl e) \<longleftrightarrow> (\<exists>e. parse_job_loop (jobs data) ?js = Inl e)"
      using Some pe by (auto simp add: parse_section_def Let_def split: sum.splits)
    then show ?thesis
      using Some pe by (simp add: parse_job_loop_fails_iff section_malformed_def section_title_text_def)
  next
    case ms
    have "(\<exists>e. parse_section data sect = Inl e) \<longleftrightarrow> (\<exists>e. parse_job_loop (military data) ?js = Inl e)"
      using Some ms d by (auto simp add: parse_section_def Let_def split: sum.splits)
    then show ?thesis
      using Some ms by (simp add: parse_job_loop_fails_iff section_malformed_def section_title_text_def)
  next
    case ec
    show ?thesis
      using Some ec d
      by (auto simp add: parse_section_def Let_def section_malformed_def section_title_text_def
          split: option.splits list.splits)
  next
    case other
    then show ?thesis
      using Some by (simp add: parse_section_def Let_def section_malformed_def section_title_text_def)
  qed
qed

lemma parse_sections_fails_iff:
  "(\<exists>e. parse_sections data sects = Inl e) \<longleftrightarrow> list_ex section_malformed sects"
proof (induction sects arbitrary: data)
  case Nil
  then show ?case by simp
next
  case (Cons s sects)
  show ?case
  proof (cases "parse_section data s")
    case (Inl e)
    then have "section_malformed s" using parse_section_fails_iff [of data s] by auto
    with Inl show ?thesis by simp
  next
    case (Inr data')
    then have "\<not> section_malformed s" using parse_section_fails_iff [of data s] by auto
    with Inr Cons.IH [of data'] show ?thesis by auto
  qed
qed

lemma parse_resume_soup_fails_iff:
  "(\<exists>e. parse_resume_soup soup = Inl e) \<longleftrightarrow> resume_required_missing soup"
  by (auto simp add: parse_resume_soup_def resume_required_missing_def parse_sections_fails_iff
      split: option.splits)

lemma parse_cover_letter_soup_fails_iff:
  "(\<exists>e. parse_cover_letter_soup soup = Inl e) \<longleftrightarrow> cover_required_missing soup"
  by (auto simp add: parse_cover_letter_soup_def cover_required_missing_def split: option.splits)

subsection \<open>The example inputs, evaluated\<close>

lemma find_all_sections_ex:
  "find_all ex_resume_soup (str ''div'') (Some (str ''section'')) =
     [ex_untitled_section, ex_hobbies_section, ex_experience_section]"
  by (simp add: ex_resume_soup_def ex_header_block_def ex_skills_grid_def ex_untitled_section_def
      ex_hobbies_section_def ex_experience_section_def find_all_def matches_def str_def)

lemma parse_ex_resume_soup: "parse_resume_soup ex_resume_soup = Inr ex_resume_data"
  by (simp add: ex_resume_soup_def ex_header_block_def ex_skills_grid_def ex_untitled_section_def
      ex_hobbies_section_def ex_experience_section_def parse_resume_soup_def parse_section_def parse_job_def
      find_tag_def find_all_def matches_def Let_def
      str_def get_text_def strip_def isspace_def parse_contacts_def
      ex_resume_data_def ex_job_def)


lemma find_all_sections_plain:
  "find_all ex_plain_soup (str ''div'') (Some (str ''section'')) =
     [ex_untitled_section, ex_hobbies_section]"
  by (simp add: ex_plain_soup_def ex_header_block_def ex_skills_grid_def ex_untitled_section_def
      ex_hobbies_section_def find_all_def matches_def str_def)

lemma ex_sections_titles:
  "section_title_text ex_untitled_section = None"
  "section_title_text ex_hobbies_section = Some (str ''Hobbies'')"
  "section_title_text ex_experience_section = Some (str ''Professional Experience'')"
  by (simp_all add: section_title_text_def ex_untitled_section_def ex_hobbies_section_def
      ex_experience_section_def find_tag_def find_all_def matches_def str_def get_text_def
      strip_def isspace_def)

lemma ex_titles_differ:
  "str ''Hobbies'' \<noteq> str ''Professional Experience''"
  "str ''Hobbies'' \<noteq> str ''Military Service''"
  "str ''Hobbies'' \<noteq> str ''Education & Certifications''"
  "str ''Professional Experience'' \<noteq> str ''Education & Certifications''"
  by (simp_all add: str_def)

lemma ex_plain_soup_complete: "\<not> resume_required_missing ex_plain_soup"
proof -
  have h: "find_tag ex_plain_soup (str ''div'') (Some (str ''header'')) = Some ex_header_block"
    by (simp add: ex_plain_soup_def ex_header_block_def ex_skills_grid_def ex_untitled_section_def
        ex_hobbies_section_def find_tag_def find_all_def matches_def str_def)
  have s: "find_tag ex_plain_soup (str ''div'') (Some (str ''skills-grid'')) = Some ex_skills_grid"
    by (simp add: ex_plain_soup_def ex_header_block_def ex_skills_grid_def ex_untitled_section_def
        ex_hobbies_section_def find_tag_def find_all_def matches_def str_def)
  have p: "find_tag ex_header_block (str ''h1'') None \<noteq> None"
    "find_tag ex_header_block (str ''div'') (Some (str ''title'')) \<noteq> None"
    "find_tag ex_header_block (str ''div'') (Some (str ''contact-row'')) \<noteq> None"
    by (simp_all add: ex_header_block_def find_tag_def find_all_def matches_def str_def)
  have m: "\<not> section_malformed ex_untitled_section" "\<not> section_malformed ex_hobbies_section"
    by (simp_all add: section_malformed_def ex_sections_titles ex_titles_differ)
  show ?thesis
    using p by (simp add: resume_required_missing_def h s find_all_sections_plain m)
qed

lemma parse_ex_cover_soup:
  "parse_cover_letter_soup ex_cover_soup =
     Inr (ex_cover_data\<lparr>recipient_lines := [str ''Acme'', str ''Attn: Hiring'', str ''Acme'']\<rparr>)"
  by (simp add: ex_cover_soup_def parse_cover_letter_soup_def find_tag_def find_all_def matches_def
      str_def get_text_def strip_def isspace_def parse_contacts_def parse_recipient_lines_def
      ex_cover_data_def)


subsection \<open>The job-entry parser\<close>

text \<open>
  Claim C5. When the job element has a header sub-block, \<open>_parse_job\<close> returns a job
  record (it does not raise), and in that record the title, the company and the date are
  the empty string when their span is absent from the header, and the bullet list is
  empty when the job element has no bullet list.
\<close>

theorem parse_job_missing_spans:
  assumes "find_tag job_div (str ''div'') (Some (str ''job-header'')) = Some header"
  shows "\<exists>j. parse_job job_div = Inr j
     \<and> (find_tag header (str ''span'') (Some (str ''job-title'')) = None \<longrightarrow> job_title j = [])
     \<and> (find_tag header (str ''span'') (Some (str ''job-company'')) = None \<longrightarrow> job_company j = [])
     \<and> (find_tag header (str ''span'') (Some (str ''job-date'')) = None \<longrightarrow> job_date j = [])
     \<and> (find_tag job_div (str ''ul'') (Some (str ''job-bullets'')) = None \<longrightarrow> job_bullets j = [])"
  using assms by (simp add: parse_job_def Let_def)

theorem parse_job_missing_spans_witness:
  "parse_job ex_job_div =
     Inr \<lparr> job_title = str ''Engineer'', job_company = [], job_date = [], job_bullets = [] \<rparr>"
proof -
  have h: "find_tag ex_job_div (str ''div'') (Some (str ''job-header'')) = Some ex_job_header"
    by (simp add: ex_job_div_def ex_job_header_def find_tag_def find_all_def matches_def str_def)
  have c: "find_tag ex_job_header (str ''span'') (Some (str ''job-company'')) = None"
    by (simp add: ex_job_header_def find_tag_def find_all_def matches_def str_def)
  have d: "find_tag ex_job_header (str ''span'') (Some (str ''job-date'')) = None"
    by (simp add: ex_job_header_def find_tag_def find_all_def matches_def str_def)
  have b: "find_tag ex_job_div (str ''ul'') (Some (str ''job-bullets'')) = None"
    by (simp add: ex_job_div_def ex_job_header_def find_tag_def find_all_def matches_def str_def)
  have t: "find_tag ex_job_header (str ''span'') (Some (str ''job-title'')) =
      Some (Tag (str ''span'') [str ''job-title''] [NavigableString (str '' Engineer '')])"
    by (simp add: ex_job_header_def find_tag_def find_all_def matches_def str_def)
  have g: "get_text [] (Tag (str ''span'') [str ''job-title''] [NavigableString (str '' Engineer '')])
      = str ''Engineer''"
    by (simp add: get_text_def strip_def isspace_def str_def)
  from parse_job_missing_spans [OF h] c d b obtain j where
    j: "parse_job ex_job_div = Inr j" "job_company j = []" "job_date j = []" "job_bullets j = []"
    by blast
  have "job_title j = str ''Engineer''"
    using j(1) h t g by (auto simp add: parse_job_def Let_def)
  with j show ?thesis by (cases j) simp
qed

subsection \<open>The contact line\<close>

lemma contact_line_header:
  "build_header data = Inr t \<Longrightarrow> contact_line t = spaced (map contact_run (contacts data))"
  by (auto simp add: build_header_eq contact_line_def table_cell_def)

lemma cl_build_document_first:
  "cl_build_header data = Inr t \<Longrightarrow> \<exists>rest. cl_build_document data = Inr (Table t # rest)"
  by (simp add: cl_build_document_def Let_def add_recipient_lines_eq)

text \<open>
  Claim C7. In both programs the document starts with the header table, and for a record
  with \<open>N\<close> contact strings the contact line of that table has \<open>2 * N - 1\<close> runs
  (none when \<open>N = 0\<close>): the run at position \<open>2 * i\<close> is the run of contact \<open>i\<close>,
  for every \<open>i < N\<close>, and the run at position \<open>2 * i + 1\<close> is the spacer run of four
  spaces, for every \<open>i\<close> with \<open>i + 1 < N\<close>. So the line holds the \<open>N\<close> contacts in list
  order, one spacer between neighbours, and nothing before the first or after the last.
\<close>

theorem contact_line_runs:
  fixes rd :: resume_data and cd :: cover_data
  shows "(\<exists>t rest. build_document rd = Inr (Table t # rest)
            \<and> length (contact_line t) = 2 * length (contacts rd) - 1
            \<and> (\<forall>i < length (contacts rd). contact_line t ! (2 * i) =
                   new_run (contacts rd ! i) False (Some WHITE) (Some (Pt 9)) None)
            \<and> (\<forall>i. Suc i < length (contacts rd) \<longrightarrow> contact_line t ! (2 * i + 1) =
                   new_run (str ''    '') False (Some WHITE) (Some (Pt 9)) None))
       \<and> (\<exists>t rest. cl_build_document cd = Inr (Table t # rest)
            \<and> length (contact_line t) = 2 * length (contacts cd) - 1
            \<and> (\<forall>i < length (contacts cd). contact_line t ! (2 * i) =
                   cl_new_run (contacts cd ! i) False False (Some WHITE) (Some (Pt 9)))
            \<and> (\<forall>i. Suc i < length (contacts cd) \<longrightarrow> contact_line t ! (2 * i + 1) =
                   cl_new_run (str ''    '') False False (Some WHITE) (Some (Pt 9))))"
proof (rule conjI)
  obtain h s e where h: "build_header rd = Inr h" and s: "build_skills (skills rd) = Inr s"
    and e: "build_education (education rd) = Inr e"
    using build_header_ok build_skills_ok build_education_ok by metis
  have line: "contact_line h = spaced (map contact_run (contacts rd))"
    using contact_line_header [OF h] .
  have "\<exists>rest. build_document rd = Inr (Table h # rest)"
    by (simp add: build_document_eq [OF h s e])
  moreover have "length (contact_line h) = 2 * length (contacts rd) - 1"
    by (simp add: line length_spaced)
  moreover have "\<forall>i < length (contacts rd). contact_line h ! (2 * i) =
      new_run (contacts rd ! i) False (Some WHITE) (Some (Pt 9)) None"
    by (simp add: line spaced_even contact_run_def)
  moreover have "\<forall>i. Suc i < length (contacts rd) \<longrightarrow> contact_line h ! (2 * i + 1) =
      new_run (str ''    '') False (Some WHITE) (Some (Pt 9)) None"
    using spaced_odd [of _ "map contact_run (contacts rd)"] by (simp add: line spacer_run_def)
  ultimately show "\<exists>t rest. build_document rd = Inr (Table t # rest)
            \<and> length (contact_line t) = 2 * length (contacts rd) - 1
            \<and> (\<forall>i < length (contacts rd). contact_line t ! (2 * i) =
                   new_run (contacts rd ! i) False (Some WHITE) (Some (Pt 9)) None)
            \<and> (\<forall>i. Suc i < length (contacts rd) \<longrightarrow> contact_line t ! (2 * i + 1) =
                   new_run (str ''    '') False (Some WHITE) (Some (Pt 9)) None)"
    by blast
next
  obtain h where h: "build_header cd = Inr h"
    using build_header_ok by metis
  then have ch: "cl_build_header cd = Inr h" by (simp add: cl_build_header_eq)
  have line: "contact_line h = spaced (map contact_run (contacts cd))"
    using contact_line_header [OF h] .
  have "\<exists>rest. cl_build_document cd = Inr (Table h # rest)"
    using cl_build_document_first [OF ch] .
  moreover have "length (contact_line h) = 2 * length (contacts cd) - 1"
    by (simp add: line length_spaced)
  moreover have "\<forall>i < length (contacts cd). contact_line h ! (2 * i) =
      cl_new_run (contacts cd ! i) False False (Some WHITE) (Some (Pt 9))"
    by (simp add: line spaced_even contact_run_def new_run_cl)
  moreover have "\<forall>i. Suc i < length (contacts cd) \<longrightarrow> contact_line h ! (2 * i + 1) =
      cl_new_run (str ''    '') False False (Some WHITE) (Some (Pt 9))"
    using spaced_odd [of _ "map contact_run (contacts cd)"] by (simp add: line spacer_run_def new_run_cl)
  ultimately show "\<exists>t rest. cl_build_document cd = Inr (Table t # rest)
            \<and> length (contact_line t) = 2 * length (contacts cd) - 1
            \<and> (\<forall>i < length (contacts cd). contact_line t ! (2 * i) =
                   cl_new_run (contacts cd ! i) False False (Some WHITE) (Some (Pt 9)))
            \<and> (\<forall>i. Suc i < length (contacts cd) \<longrightarrow> contact_line t ! (2 * i + 1) =
                   cl_new_run (str ''    '') False False (Some WHITE) (Some (Pt 9)))"
    by blast
qed

theorem contact_line_runs_witness:
  "(\<exists>t rest. build_document ex_resume_data = Inr (Table t # rest)
      \<and> length (contact_line t) = 5
      \<and> run_text (contact_line t ! 0) = str ''jane@x.org''
      \<and> run_text (contact_line t ! 1) = str ''    ''
      \<and> run_text (contact_line t ! 2) = str ''555-0100''
      \<and> run_text (contact_line t ! 3) = str ''    ''
      \<and> run_text (contact_line t ! 4) = str ''Denver'')
   \<and> (\<exists>t rest. cl_build_document ex_cover_data = Inr (Table t # rest)
      \<and> length (contact_line t) = 3
      \<and> run_text (contact_line t ! 0) = str ''jane@x.org''
      \<and> run_text (contact_line t ! 1) = str ''    ''
      \<and> run_text (contact_line t ! 2) = str ''555-0100'')"
proof -
  have rc: "contacts ex_resume_data = [str ''jane@x.org'', str ''555-0100'', str ''Denver'']"
    by (simp add: ex_resume_data_def)
  have cc: "contacts ex_cover_data = [str ''jane@x.org'', str ''555-0100'']"
    by (simp add: ex_cover_data_def)
  from contact_line_runs [of ex_resume_data ex_cover_data]
  obtain t rest u rest' where
    a: "build_document ex_resume_data = Inr (Table t # rest)"
    and l: "length (contact_line t) = 2 * length (contacts ex_resume_data) - 1"
    and e: "\<forall>i < length (contacts ex_resume_data). contact_line t ! (2 * i) =
              new_run (contacts ex_resume_data ! i) False (Some WHITE) (Some (Pt 9)) None"
    and o: "\<forall>i. Suc i < length (contacts ex_resume_data) \<longrightarrow> contact_line t ! (2 * i + 1) =
              new_run (str ''    '') False (Some WHITE) (Some (Pt 9)) None"
    and a': "cl_build_document ex_cover_data = Inr (Table u # rest')"
    and l': "length (contact_line u) = 2 * length (contacts ex_cover_data) - 1"
    and e': "\<forall>i < length (contacts ex_cover_data). contact_line u ! (2 * i) =
              cl_new_run (contacts ex_cover_data ! i) False False (Some WHITE) (Some (Pt 9))"
    and o': "\<forall>i. Suc i < length (contacts ex_cover_data) \<longrightarrow> contact_line u ! (2 * i + 1) =
              cl_new_run (str ''    '') False False (Some WHITE) (Some (Pt 9))"
    by blast
  have "length (contact_line t) = 5" using l rc by simp
  moreover have "run_text (contact_line t ! 0) = str ''jane@x.org''"
    using e [rule_format, of 0] rc by (simp add: new_run_def)
  moreover have "run_text (contact_line t ! 2) = str ''555-0100''"
    using e [rule_format, of 1] rc by (simp add: new_run_def)
  moreover have "run_text (contact_line t ! 4) = str ''Denver''"
    using e [rule_format, of 2] rc by (simp add: new_run_def)
  moreover have "run_text (contact_line t ! 1) = str ''    ''"
    using o [rule_format, of 0] rc by (simp add: new_run_def)
  moreover have "run_text (contact_line t ! 3) = str ''    ''"
    using o [rule_format, of 1] rc by (simp add: new_run_def)
  moreover have "length (contact_line u) = 3" using l' cc by simp
  moreover have "run_text (contact_line u ! 0) = str ''jane@x.org''"
    using e' [rule_format, of 0] cc by (simp add: cl_new_run_def)
  moreover have "run_text (contact_line u ! 2) = str ''555-0100''"
    using e' [rule_format, of 1] cc by (simp add: cl_new_run_def)
  moreover have "run_text (contact_line u ! 1) = str ''    ''"
    using o' [rule_format, of 0] cc by (simp add: cl_new_run_def)
  ultimately show ?thesis using a a' by blast
qed

subsection \<open>The skills grid\<close>

lemma cell_runs_skill:
  assumes "i < length xs"
  shows "cell_runs \<lparr> tbl_alignment = a, borderless = b, full_width = f, n_cols = 2,
           cells = map skill_cell xs @ rest \<rparr> (i div 2) (i mod 2) =
     [new_run [10003, 32] True (Some PRIMARY) (Some (Pt 10)) None,
      new_run (xs ! i) False (Some DARK) (Some (Pt 10)) None]"
  using assms by (simp add: cell_runs_def table_cell_def nth_append skill_cell_def)

text \<open>
  Claim C3. The fourth block of the resume is the skills table. For a skills list of
  length \<open>N\<close> the table has two columns and \<open>(N + 1) div 2\<close> rows, the loop that fills
  it does not raise, the cell at row \<open>i div 2\<close> and column \<open>i mod 2\<close> holds the check
  mark run and the run of skill \<open>i\<close>, for every \<open>i < N\<close>, and when \<open>N\<close> is odd the
  second cell of the last row holds no run.
\<close>

theorem skills_grid_layout:
  "\<exists>t pre post. build_document data = Inr (pre @ Table t # post) \<and> length pre = 3
     \<and> build_skills (skills data) = Inr t
     \<and> n_cols t = 2
     \<and> row_count t = (length (skills data) + 1) div 2
     \<and> (\<forall>i < length (skills data). cell_runs t (i div 2) (i mod 2) =
           [new_run [10003, 32] True (Some PRIMARY) (Some (Pt 10)) None,
            new_run (skills data ! i) False (Some DARK) (Some (Pt 10)) None])
     \<and> (odd (length (skills data)) \<longrightarrow> cell_runs t (length (skills data) div 2) 1 = [])"
proof -
  let ?xs = "skills data"
  let ?t = "\<lparr> tbl_alignment = None, borderless = True, full_width = False, n_cols = 2,
           cells = map skill_cell ?xs @ replicate (length ?xs mod 2) empty_cell \<rparr>"
  obtain h e where h: "build_header data = Inr h" and e: "build_education (education data) = Inr e"
    using build_header_ok build_education_ok by metis
  have s: "build_skills ?xs = Inr ?t" by (rule build_skills_eq)
  have "\<exists>pre post. build_document data = Inr (pre @ Table ?t # post) \<and> length pre = 3"
  proof -
    have "build_document data =
      Inr (([Table h, Paragraph (empty_para\<lparr>space_before := Some (Pt 6), space_after := Some (Pt 0)\<rparr>)]
            @ add_section_heading [] (str ''KEY SKILLS''))
          @ Table ?t # (add_spacer [] 4
          @ add_section_heading [] (str ''PROFESSIONAL EXPERIENCE'')
          @ concat (map job_blocks (jobs data))
          @ add_section_heading [] (str ''MILITARY SERVICE'')
          @ concat (map job_blocks (military data))
          @ add_section_heading [] (str ''EDUCATION & CERTIFICATIONS'')
          @ [Table e]))"
      by (simp add: build_document_eq [OF h s e])
    moreover have "length ([Table h, Paragraph (empty_para\<lparr>space_before := Some (Pt 6), space_after := Some (Pt 0)\<rparr>)]
            @ add_section_heading [] (str ''KEY SKILLS'')) = 3"
      by (simp add: add_section_heading_def Let_def)
    ultimately show ?thesis by blast
  qed
  moreover have "n_cols ?t = 2" by simp
  moreover have "row_count ?t = (length ?xs + 1) div 2"
  proof -
    have "(length ?xs + length ?xs mod 2) div 2 = (length ?xs + 1) div 2" by presburger
    then show ?thesis by (simp add: row_count_def)
  qed
  moreover have "\<forall>i < length ?xs. cell_runs ?t (i div 2) (i mod 2) =
           [new_run [10003, 32] True (Some PRIMARY) (Some (Pt 10)) None,
            new_run (?xs ! i) False (Some DARK) (Some (Pt 10)) None]"
    by (simp add: cell_runs_skill)
  moreover have "odd (length ?xs) \<longrightarrow> cell_runs ?t (length ?xs div 2) 1 = []"
  proof
    assume odd: "odd (length ?xs)"
    then have m: "length ?xs mod 2 = 1" by presburger
    have i: "1 + length ?xs div 2 * 2 = length ?xs" using odd by presburger
    show "cell_runs ?t (length ?xs div 2) 1 = []"
      using m i by (simp add: cell_runs_def table_cell_def nth_append empty_cell_def empty_para_def)
  qed
  ultimately show ?thesis using s by blast
qed

theorem skills_grid_layout_witness:
  "\<exists>t pre post. build_document ex_resume_data = Inr (pre @ Table t # post) \<and> length pre = 3
     \<and> n_cols t = 2 \<and> row_count t = 2
     \<and> map run_text (cell_runs t 0 0) = [[10003, 32], str ''Planning'']
     \<and> map run_text (cell_runs t 0 1) = [[10003, 32], str ''Budgets'']
     \<and> map run_text (cell_runs t 1 0) = [[10003, 32], str ''Hiring'']
     \<and> cell_runs t 1 1 = []"
proof -
  have sk: "skills ex_resume_data = [str ''Planning'', str ''Budgets'', str ''Hiring'']"
    by (simp add: ex_resume_data_def)
  from skills_grid_layout [of ex_resume_data]
  obtain t pre post where
    a: "build_document ex_resume_data = Inr (pre @ Table t # post)" "length pre = 3"
    and n: "n_cols t = 2"
    and r: "row_count t = (length (skills ex_resume_data) + 1) div 2"
    and c: "\<forall>i < length (skills ex_resume_data). cell_runs t (i div 2) (i mod 2) =
           [new_run [10003, 32] True (Some PRIMARY) (Some (Pt 10)) None,
            new_run (skills ex_resume_data ! i) False (Some DARK) (Some (Pt 10)) None]"
    and l: "odd (length (skills ex_resume_data)) \<longrightarrow>
           cell_runs t (length (skills ex_resume_data) div 2) 1 = []"
    by blast
  have "row_count t = 2" using r sk by simp
  moreover have "map run_text (cell_runs t 0 0) = [[10003, 32], str ''Planning'']"
    using c [rule_format, of 0] sk by (simp add: new_run_def)
  moreover have "map run_text (cell_runs t 0 1) = [[10003, 32], str ''Budgets'']"
    using c [rule_format, of 1] sk by (simp add: new_run_def)
  moreover have "map run_text (cell_runs t 1 0) = [[10003, 32], str ''Hiring'']"
    using c [rule_format, of 2] sk by (simp add: new_run_def)
  moreover have "cell_runs t 1 1 = []"
    using l sk by simp
  ultimately show ?thesis using a n
    by (intro exI [of _ t] exI [of _ pre] exI [of _ post]) simp
qed

subsection \<open>The job blocks\<close>



subsection \<open>The separator of a job header\<close>

text \<open>
  Claim C10. The left cell of the table of a job entry holds the separator run
  \<open>" | "\<close> exactly when the company of the job is not empty, whatever the title is;
  the text of the cell is the title, followed by \<open>" | "\<close> and the company when the
  company is not empty. With an empty title and the company \<open>Acme\<close> the text of the
  cell is \<open>" | Acme"\<close>.
\<close>

theorem separator_iff_company:
  "\<exists>t. add_job_entry doc j =
          Inr (doc @ Table t # map (\<lambda>b. Paragraph (bullet_paragraph b)) (job_bullets j))
     \<and> (new_run (str '' | '') False (Some DARK) (Some (Pt 10)) None \<in> set (cell_runs t 0 0)
          \<longleftrightarrow> job_company j \<noteq> [])
     \<and> concat (map run_text (cell_runs t 0 0)) =
          job_title j @ (if job_company j = [] then [] else str '' | '' @ job_company j)"
proof -
  have "add_job_entry doc j =
          Inr (doc @ Table (job_table j) # map (\<lambda>b. Paragraph (bullet_paragraph b)) (job_bullets j))"
    by (simp add: add_job_entry_eq job_blocks_def)
  moreover have "new_run (str '' | '') False (Some DARK) (Some (Pt 10)) None \<in> set (cell_runs (job_table j) 0 0)
          \<longleftrightarrow> job_company j \<noteq> []"
    by (simp add: cell_runs_job_table_left new_run_def)
  moreover have "concat (map run_text (cell_runs (job_table j) 0 0)) =
          job_title j @ (if job_company j = [] then [] else str '' | '' @ job_company j)"
    by (simp add: cell_runs_job_table_left new_run_def)
  ultimately show ?thesis by blast
qed

theorem separator_iff_company_witness:
  "\<exists>t. add_job_entry [] \<lparr> job_title = [], job_company = str ''Acme'', job_date = [], job_bullets = [] \<rparr>
          = Inr [Table t]
     \<and> new_run (str '' | '') False (Some DARK) (Some (Pt 10)) None \<in> set (cell_runs t 0 0)
     \<and> concat (map run_text (cell_runs t 0 0)) = str '' | Acme''"
  using separator_iff_company
    [of "[]" "\<lparr> job_title = [], job_company = str ''Acme'', job_date = [], job_bullets = [] \<rparr>"]
  by (simp add: str_def)

subsection \<open>Empty optional fields\<close>

text \<open>
  Claim C6. Rendering returns a document for every record. When the badge of a cover
  letter is the empty string, the date paragraph is followed at once by the recipient
  paragraphs and these by the salutation: there is no badge paragraph, and the document
  has \<open>8 + N + M\<close> blocks for \<open>N\<close> recipient lines and \<open>M\<close> body paragraphs. When the
  company of a job is the empty string, the left cell of the job header holds the title
  run alone: no separator run and no company run.
\<close>

theorem empty_optional_fields_omitted:
  fixes cd :: cover_data and rd :: resume_data
  shows "(badge cd = [] \<longrightarrow>
           (\<exists>h d rs sal rest.
               cl_build_document cd = Inr (Table h # Paragraph d # rs @ Paragraph sal # rest)
             \<and> runs d = [cl_new_run (date cd) False False (Some GRAY) (Some (Pt 10))]
             \<and> add_recipient_lines [] (recipient_lines cd) (recipient_lines cd) = Inr rs
             \<and> runs sal = [cl_new_run (salutation cd) True False (Some ACCENT) (Some (Pt 11))]
             \<and> length (Table h # Paragraph d # rs @ Paragraph sal # rest) =
                 8 + length (recipient_lines cd) + length (paragraphs cd)))
       \<and> (job_company j = [] \<longrightarrow>
           (\<exists>t. add_job_entry doc j =
                   Inr (doc @ Table t # map (\<lambda>b. Paragraph (bullet_paragraph b)) (job_bullets j))
             \<and> cell_runs t 0 0 = [new_run (job_title j) True (Some ACCENT) (Some (Pt 10)) None]))
       \<and> (\<exists>out. build_document rd = Inr out)"
proof (intro conjI impI)
  assume b: "badge cd = []"
  obtain h where h: "cl_build_header cd = Inr h"
    using build_header_ok [of cd] by (auto simp add: cl_build_header_eq)
  obtain rs where rs: "add_recipient_lines [] (recipient_lines cd) (recipient_lines cd) = Inr rs"
    and len: "length rs = length (recipient_lines cd)"
    using add_recipient_lines_ok by blast
  let ?d = "empty_para\<lparr>alignment := Some RIGHT, space_before := Some (Pt 18),
             space_after := Some (Pt 14),
             runs := [cl_new_run (date cd) False False (Some GRAY) (Some (Pt 10))]\<rparr>"
  let ?sal = "empty_para\<lparr>space_before := Some (Pt 14), space_after := Some (Pt 10),
             runs := [cl_new_run (salutation cd) True False (Some ACCENT) (Some (Pt 11))]\<rparr>"
  obtain rest where doc: "cl_build_document cd = Inr (Table h # Paragraph ?d # rs @ Paragraph ?sal # rest)"
    and rest: "length rest = length (paragraphs cd) + 5"
    using b by (simp add: cl_build_document_eq [OF h rs])
  have d: "runs ?d = [cl_new_run (date cd) False False (Some GRAY) (Some (Pt 10))]"
    by (simp add: empty_para_def)
  have sal: "runs ?sal = [cl_new_run (salutation cd) True False (Some ACCENT) (Some (Pt 11))]"
    by (simp add: empty_para_def)
  have n: "length (Table h # Paragraph ?d # rs @ Paragraph ?sal # rest) =
                 8 + length (recipient_lines cd) + length (paragraphs cd)"
    using len rest by simp
  show "\<exists>h d rs sal rest.
               cl_build_document cd = Inr (Table h # Paragraph d # rs @ Paragraph sal # rest)
             \<and> runs d = [cl_new_run (date cd) False False (Some GRAY) (Some (Pt 10))]
             \<and> add_recipient_lines [] (recipient_lines cd) (recipient_lines cd) = Inr rs
             \<and> runs sal = [cl_new_run (salutation cd) True False (Some ACCENT) (Some (Pt 11))]
             \<and> length (Table h # Paragraph d # rs @ Paragraph sal # rest) =
                 8 + length (recipient_lines cd) + length (paragraphs cd)"
    by (intro exI conjI) (rule doc, rule d, rule rs, rule sal, rule n)
next
  assume c: "job_company j = []"
  have "add_job_entry doc j =
          Inr (doc @ Table (job_table j) # map (\<lambda>b. Paragraph (bullet_paragraph b)) (job_bullets j))"
    by (simp add: add_job_entry_eq job_blocks_def)
  moreover have "cell_runs (job_table j) 0 0 = [new_run (job_title j) True (Some ACCENT) (Some (Pt 10)) None]"
    using c by (simp add: cell_runs_job_table_left)
  ultimately show "\<exists>t. add_job_entry doc j =
                   Inr (doc @ Table t # map (\<lambda>b. Paragraph (bullet_paragraph b)) (job_bullets j))
             \<and> cell_runs t 0 0 = [new_run (job_title j) True (Some ACCENT) (Some (Pt 10)) None]"
    by blast
next
  show "\<exists>out. build_document rd = Inr out" by (rule build_document_ok)
qed

theorem empty_optional_fields_omitted_witness:
  "(\<exists>h d rs sal rest.
       cl_build_document ex_cover_data = Inr (Table h # Paragraph d # rs @ Paragraph sal # rest)
     \<and> map run_text (runs d) = [str ''May 1'']
     \<and> map (map run_text \<circ> paragraph_runs) rs = [[str ''Acme''], [str ''Attn: Hiring'']]
     \<and> map run_text (runs sal) = [str ''Dear team,'']
     \<and> length (Table h # Paragraph d # rs @ Paragraph sal # rest) = 11)
   \<and> (\<exists>t. add_job_entry [] \<lparr> job_title = str ''Lead'', job_company = [], job_date = str ''2020'',
                               job_bullets = [] \<rparr> = Inr [Table t]
          \<and> map run_text (cell_runs t 0 0) = [str ''Lead''])
   \<and> (\<exists>out. build_document ex_resume_data = Inr out)"
proof -
  let ?j = "\<lparr> job_title = str ''Lead'', job_company = [], job_date = str ''2020'', job_bullets = [] \<rparr>"
  note inst = empty_optional_fields_omitted [of ex_cover_data ?j "[]" ex_resume_data]
  have b: "badge ex_cover_data = []" by (simp add: ex_cover_data_def)
  have c: "job_company ?j = []" by simp
  from inst have i1: "badge ex_cover_data = [] \<longrightarrow>
           (\<exists>h d rs sal rest.
               cl_build_document ex_cover_data = Inr (Table h # Paragraph d # rs @ Paragraph sal # rest)
             \<and> runs d = [cl_new_run (date ex_cover_data) False False (Some GRAY) (Some (Pt 10))]
             \<and> add_recipient_lines [] (recipient_lines ex_cover_data) (recipient_lines ex_cover_data) = Inr rs
             \<and> runs sal = [cl_new_run (salutation ex_cover_data) True False (Some ACCENT) (Some (Pt 11))]
             \<and> length (Table h # Paragraph d # rs @ Paragraph sal # rest) =
                 8 + length (recipient_lines ex_cover_data) + length (paragraphs ex_cover_data))"
    and i2: "job_company ?j = [] \<longrightarrow>
           (\<exists>t. add_job_entry [] ?j =
                   Inr ([] @ Table t # map (\<lambda>b. Paragraph (bullet_paragraph b)) (job_bullets ?j))
             \<and> cell_runs t 0 0 = [new_run (job_title ?j) True (Some ACCENT) (Some (Pt 10)) None])"
    and i3: "\<exists>out. build_document ex_resume_data = Inr out"
    by (rule conjunct1, rule conjunct2 [THEN conjunct1], rule conjunct2 [THEN conjunct2])
  from i1 [THEN mp, OF b] obtain h d rs sal rest where
    doc: "cl_build_document ex_cover_data = Inr (Table h # Paragraph d # rs @ Paragraph sal # rest)"
    and d: "runs d = [cl_new_run (date ex_cover_data) False False (Some GRAY) (Some (Pt 10))]"
    and rs: "add_recipient_lines [] (recipient_lines ex_cover_data) (recipient_lines ex_cover_data) = Inr rs"
    and sal: "runs sal = [cl_new_run (salutation ex_cover_data) True False (Some ACCENT) (Some (Pt 11))]"
    and n: "length (Table h # Paragraph d # rs @ Paragraph sal # rest) =
              8 + length (recipient_lines ex_cover_data) + length (paragraphs ex_cover_data)"
    by (elim exE conjE) (rule that)
  from i2 [THEN mp, OF c] obtain t where
    t: "add_job_entry [] ?j = Inr ([] @ Table t # map (\<lambda>b. Paragraph (bullet_paragraph b)) (job_bullets ?j))"
    and l: "cell_runs t 0 0 = [new_run (job_title ?j) True (Some ACCENT) (Some (Pt 10)) None]"
    by (elim exE conjE) (rule that)
  from i3 obtain out where out: "build_document ex_resume_data = Inr out" ..
  have d': "map run_text (runs d) = [str ''May 1'']"
    using d by (simp add: ex_cover_data_def cl_new_run_def)
  have sal': "map run_text (runs sal) = [str ''Dear team,'']"
    using sal by (simp add: ex_cover_data_def cl_new_run_def)
  have rs': "map (map run_text \<circ> paragraph_runs) rs = [[str ''Acme''], [str ''Attn: Hiring'']]"
    using rs
    by (auto simp add: ex_cover_data_def recipient_paragraph_def Let_def cl_add_run_def
        cl_new_run_def empty_para_def str_def)
  have n': "length (Table h # Paragraph d # rs @ Paragraph sal # rest) = 11"
    using n by (simp add: ex_cover_data_def)
  have t': "add_job_entry [] ?j = Inr [Table t]" using t by simp
  have l': "map run_text (cell_runs t 0 0) = [str ''Lead'']" using l by (simp add: new_run_def)
  have A: "\<exists>h d rs sal rest.
       cl_build_document ex_cover_data = Inr (Table h # Paragraph d # rs @ Paragraph sal # rest)
     \<and> map run_text (runs d) = [str ''May 1'']
     \<and> map (map run_text \<circ> paragraph_runs) rs = [[str ''Acme''], [str ''Attn: Hiring'']]
     \<and> map run_text (runs sal) = [str ''Dear team,'']
     \<and> length (Table h # Paragraph d # rs @ Paragraph sal # rest) = 11"
    by (intro exI conjI) (rule doc, rule d', rule rs', rule sal', rule n')
  have B: "\<exists>t. add_job_entry [] ?j = Inr [Table t] \<and> map run_text (cell_runs t 0 0) = [str ''Lead'']"
    by (intro exI conjI) (rule t', rule l')
  have C: "\<exists>out. build_document ex_resume_data = Inr out"
    by (intro exI) (rule out)
  show ?thesis by (intro conjI) (rule A, rule B, rule C)
qed

subsection \<open>The recipient lines\<close>

text \<open>
  Claim C1, which the code does not meet. The loop compares the text of each line with
  the text of the first line, so a later line that repeats the first one is rendered as
  the first one is. The cover letter \<open>ex_cover_soup\<close> has the recipient lines Acme,
  Attn: Hiring, Acme; it is extracted without error, and in the document built from it
  the third recipient paragraph is bold and in the primary colour like the first, where
  the claim has it plain.
\<close>

theorem repeated_recipient_line_is_bold:
  "\<exists>data doc.
      parse_cover_letter_soup ex_cover_soup = Inr data
    \<and> recipient_lines data = [str ''Acme'', str ''Attn: Hiring'', str ''Acme'']
    \<and> cl_build_document data = Inr doc
    \<and> map (map (\<lambda>r. (run_text r, bold r, font_color r)) \<circ> paragraph_runs) (take 3 (drop 2 doc)) =
        [[(str ''Acme'', True, Some PRIMARY)],
         [(str ''Attn: Hiring'', False, Some DARK)],
         [(str ''Acme'', True, Some PRIMARY)]]"
proof -
  let ?data = "ex_cover_data\<lparr>recipient_lines := [str ''Acme'', str ''Attn: Hiring'', str ''Acme'']\<rparr>"
  have p: "parse_cover_letter_soup ex_cover_soup = Inr ?data"
    by (rule parse_ex_cover_soup)
  have l: "recipient_lines ?data = [str ''Acme'', str ''Attn: Hiring'', str ''Acme'']"
    by simp
  obtain h where h: "cl_build_header ?data = Inr h"
    using build_header_ok [of ?data] by (auto simp add: cl_build_header_eq)
  let ?rs = "map (recipient_block (str ''Acme'')) [str ''Acme'', str ''Attn: Hiring'', str ''Acme'']"
  have rs: "add_recipient_lines [] (recipient_lines ?data) (recipient_lines ?data) = Inr ?rs"
    by (simp add: add_recipient_lines_eq del: add_recipient_lines.simps)
  have b: "badge ?data = []" by (simp add: ex_cover_data_def)
  obtain d rest where doc: "cl_build_document ?data = Inr (Table h # Paragraph d # ?rs @ rest)"
    using b by (simp add: cl_build_document_eq [OF h rs])
  have m: "map (map (\<lambda>r. (run_text r, bold r, font_color r)) \<circ> paragraph_runs)
          (take 3 (drop 2 (Table h # Paragraph d # ?rs @ rest))) =
        [[(str ''Acme'', True, Some PRIMARY)],
         [(str ''Attn: Hiring'', False, Some DARK)],
         [(str ''Acme'', True, Some PRIMARY)]]"
    by (simp add: recipient_block_def cl_new_run_def empty_para_def str_def)
  show ?thesis
    by (intro exI conjI) (rule p, rule l, rule doc, rule m)
qed

subsection \<open>Sections without a branch\<close>

lemma parse_section_unrecognised: "unrecognised sect \<Longrightarrow> parse_section data sect = Inr data"
  by (auto simp add: unrecognised_def section_title_text_def parse_section_def Let_def
      split: option.splits)

lemma parse_sections_unrecognised:
  "\<forall>s \<in> set sects. unrecognised s \<Longrightarrow> parse_sections data sects = Inr data"
  by (induction sects) (simp_all add: parse_section_unrecognised)

lemma parse_section_education:
  assumes "parse_section data sect = Inr data'"
    and "section_title_text sect \<noteq> Some (str ''Education & Certifications'')"
  shows "education data' = education data"
  using assms
  by (auto simp add: parse_section_def section_title_text_def Let_def
      split: option.splits sum.splits if_splits)

lemma parse_sections_education:
  assumes "parse_sections data sects = Inr data'"
    and "\<forall>s \<in> set sects. section_title_text s \<noteq> Some (str ''Education & Certifications'')"
  shows "education data' = education data"
  using assms
proof (induction sects arbitrary: data)
  case Nil
  then show ?case by simp
next
  case (Cons s sects)
  from Cons.prems(1) obtain mid where mid: "parse_section data s = Inr mid"
    and rest: "parse_sections mid sects = Inr data'"
    by (auto split: sum.splits)
  have "education mid = education data"
    using parse_section_education [OF mid] Cons.prems(2) by simp
  moreover have "education data' = education mid"
    using Cons.IH [OF rest] Cons.prems(2) by simp
  ultimately show ?case by simp
qed

lemma parse_resume_soup_education:
  assumes "parse_resume_soup soup = Inr d"
    and "\<forall>s \<in> set (find_all soup (str ''div'') (Some (str ''section''))).
            section_title_text s \<noteq> Some (str ''Education & Certifications'')"
  shows "education d = \<lparr> edu_left = None, edu_right = None \<rparr>"
proof -
  from assms(1) obtain init where
    "parse_sections init (find_all soup (str ''div'') (Some (str ''section''))) = Inr d"
    and "education init = \<lparr> edu_left = None, edu_right = None \<rparr>"
    by (auto simp add: parse_resume_soup_def split: option.splits)
  then show ?thesis using parse_sections_education assms(2) by metis
qed

lemma parse_resume_soup_unrecognised:
  assumes "\<not> resume_required_missing soup"
    and "\<forall>s \<in> set (find_all soup (str ''div'') (Some (str ''section''))). unrecognised s"
  shows "\<exists>d. parse_resume_soup soup = Inr d \<and> jobs d = [] \<and> military d = []
           \<and> education d = \<lparr> edu_left = None, edu_right = None \<rparr>"
  using assms
  by (auto simp add: parse_resume_soup_def resume_required_missing_def
      parse_sections_unrecognised split: option.splits)

lemma education_table_empty:
  assumes "build_education \<lparr> edu_left = None, edu_right = None \<rparr> = Inr e"
  shows "map (map run_text \<circ> runs) (cell_paragraphs_at e 0 0) = [[str ''Education'']]"
    and "map (map run_text \<circ> runs) (cell_paragraphs_at e 0 1) = [[str ''Certifications'']]"
  using assms
  by (auto simp add: build_education_eq cell_paragraphs_at_def table_cell_def new_run_def
      empty_cell_def empty_para_def)

text \<open>
  Claim C9. A section whose title element is absent, or whose title text is none of
  Professional Experience, Military Service and Education \& Certifications, is passed
  over: the step of the loop returns the record as it was and does not raise, and so does
  the loop over a list of such sections. A resume that has every required element and
  only such sections is extracted with no jobs, no military entries and an empty
  education dictionary. Whenever no section is titled Education \& Certifications, the
  extracted education dictionary is empty, and the renderer then writes the education
  table with the two label paragraphs alone.
\<close>

theorem unrecognised_sections_skipped:
  "(unrecognised sect \<longrightarrow> parse_section data sect = Inr data)
   \<and> ((\<forall>s \<in> set sects. unrecognised s) \<longrightarrow> parse_sections data sects = Inr data)
   \<and> ((\<forall>s \<in> set (find_all soup (str ''div'') (Some (str ''section''))). unrecognised s)
        \<and> \<not> resume_required_missing soup \<longrightarrow>
        (\<exists>d. parse_resume_soup soup = Inr d \<and> jobs d = [] \<and> military d = []
            \<and> education d = \<lparr> edu_left = None, edu_right = None \<rparr>))
   \<and> ((\<forall>s \<in> set (find_all soup' (str ''div'') (Some (str ''section''))).
            section_title_text s \<noteq> Some (str ''Education & Certifications''))
        \<and> parse_resume_soup soup' = Inr d \<longrightarrow>
          education d = \<lparr> edu_left = None, edu_right = None \<rparr>
        \<and> (\<exists>doc e. build_document d = Inr (doc @ [Table e])
              \<and> map (map run_text \<circ> runs) (cell_paragraphs_at e 0 0) = [[str ''Education'']]
              \<and> map (map run_text \<circ> runs) (cell_paragraphs_at e 0 1) = [[str ''Certifications'']]))"
proof (intro conjI impI)
  assume "unrecognised sect"
  then show "parse_section data sect = Inr data" by (rule parse_section_unrecognised)
next
  assume "\<forall>s \<in> set sects. unrecognised s"
  then show "parse_sections data sects = Inr data" by (rule parse_sections_unrecognised)
next
  assume "(\<forall>s \<in> set (find_all soup (str ''div'') (Some (str ''section''))). unrecognised s)
        \<and> \<not> resume_required_missing soup"
  then show "\<exists>d. parse_resume_soup soup = Inr d \<and> jobs d = [] \<and> military d = []
            \<and> education d = \<lparr> edu_left = None, edu_right = None \<rparr>"
    using parse_resume_soup_unrecognised by blast
next
  assume a: "(\<forall>s \<in> set (find_all soup' (str ''div'') (Some (str ''section''))).
            section_title_text s \<noteq> Some (str ''Education & Certifications''))
        \<and> parse_resume_soup soup' = Inr d"
  then show edu: "education d = \<lparr> edu_left = None, edu_right = None \<rparr>"
    using parse_resume_soup_education by blast
  obtain h s e where h: "build_header d = Inr h" and s: "build_skills (skills d) = Inr s"
    and e: "build_education (education d) = Inr e"
    using build_header_ok build_skills_ok build_education_ok by metis
  obtain doc where doc: "build_document d = Inr (doc @ [Table e])"
    using build_document_eq [OF h s e] by (metis append.assoc)
  have c0: "map (map run_text \<circ> runs) (cell_paragraphs_at e 0 0) = [[str ''Education'']]"
    using education_table_empty(1) e edu by simp
  have c1: "map (map run_text \<circ> runs) (cell_paragraphs_at e 0 1) = [[str ''Certifications'']]"
    using education_table_empty(2) e edu by simp
  show "\<exists>doc e. build_document d = Inr (doc @ [Table e])
              \<and> map (map run_text \<circ> runs) (cell_paragraphs_at e 0 0) = [[str ''Education'']]
              \<and> map (map run_text \<circ> runs) (cell_paragraphs_at e 0 1) = [[str ''Certifications'']]"
    by (intro exI conjI) (rule doc, rule c0, rule c1)
qed

theorem unrecognised_sections_skipped_witness:
  "parse_section ex_resume_data ex_untitled_section = Inr ex_resume_data
   \<and> parse_sections ex_resume_data [ex_untitled_section, ex_hobbies_section] = Inr ex_resume_data
   \<and> (\<exists>d. parse_resume_soup ex_plain_soup = Inr d \<and> jobs d = [] \<and> military d = []
          \<and> education d = \<lparr> edu_left = None, edu_right = None \<rparr>)
   \<and> parse_resume_soup ex_resume_soup = Inr ex_resume_data
   \<and> education ex_resume_data = \<lparr> edu_left = None, edu_right = None \<rparr>
   \<and> (\<exists>doc e. build_document ex_resume_data = Inr (doc @ [Table e])
          \<and> map (map run_text \<circ> runs) (cell_paragraphs_at e 0 0) = [[str ''Education'']]
          \<and> map (map run_text \<circ> runs) (cell_paragraphs_at e 0 1) = [[str ''Certifications'']])"
proof -
  have u1: "unrecognised ex_untitled_section"
    by (simp add: unrecognised_def ex_sections_titles)
  have u2: "unrecognised ex_hobbies_section"
    by (simp add: unrecognised_def ex_sections_titles ex_titles_differ)
  have a: "\<forall>s \<in> set [ex_untitled_section, ex_hobbies_section]. unrecognised s"
    using u1 u2 by simp
  have b: "(\<forall>s \<in> set (find_all ex_plain_soup (str ''div'') (Some (str ''section''))). unrecognised s)
        \<and> \<not> resume_required_missing ex_plain_soup"
    using u1 u2 ex_plain_soup_complete by (simp add: find_all_sections_plain)
  have p: "parse_resume_soup ex_resume_soup = Inr ex_resume_data"
    by (rule parse_ex_resume_soup)
  have c: "(\<forall>s \<in> set (find_all ex_resume_soup (str ''div'') (Some (str ''section''))).
            section_title_text s \<noteq> Some (str ''Education & Certifications''))
        \<and> parse_resume_soup ex_resume_soup = Inr ex_resume_data"
    using p by (simp add: find_all_sections_ex ex_sections_titles ex_titles_differ)
  note inst = unrecognised_sections_skipped
    [of ex_untitled_section ex_resume_data "[ex_untitled_section, ex_hobbies_section]"
        ex_plain_soup ex_resume_soup ex_resume_data]
  note i1 = inst [THEN conjunct1, THEN mp, OF u1]
  note i2 = inst [THEN conjunct2, THEN conjunct1, THEN mp, OF a]
  note i3 = inst [THEN conjunct2, THEN conjunct2, THEN conjunct1, THEN mp, OF b]
  note i4 = inst [THEN conjunct2, THEN conjunct2, THEN conjunct2, THEN mp, OF c]
  show ?thesis
    by (intro conjI) (rule i1, rule i2, rule i3, rule p, rule i4 [THEN conjunct1], rule i4 [THEN conjunct2])
qed

subsection \<open>Abort on an input fault\<close>

lemma resume_main_cases:
  "resume_main l argv w =
     (case parse_resume l (arg_or argv 1 (str ''resume.html'')) w of
        Inl e \<Rightarrow> (1, [], w)
      | Inr data \<Rightarrow>
          (case build_document data of
             Inl e \<Rightarrow> (1, [], w)
           | Inr doc \<Rightarrow>
               if arg_or argv 2 (str ''resume.docx'') \<in> unwritable w then (1, [], w)
               else (0, [str ''Generated '' @ arg_or argv 2 (str ''resume.docx'')],
                     w\<lparr>files := (files w)(arg_or argv 2 (str ''resume.docx'') \<mapsto> docx_bytes l doc)\<rparr>)))"
  by (simp add: resume_main_def build_docx_def save_def Let_def split: sum.splits)

lemma cover_letter_main_cases:
  "cover_letter_main l argv w =
     (case parse_cover_letter l (arg_or argv 1 (str ''neuroworks.html'')) w of
        Inl e \<Rightarrow> (1, [], w)
      | Inr data \<Rightarrow>
          (case cl_build_document data of
             Inl e \<Rightarrow> (1, [], w)
           | Inr doc \<Rightarrow>
               if arg_or argv 2 (str ''neuroworks.docx'') \<in> unwritable w then (1, [], w)
               else (0, [str ''Generated '' @ arg_or argv 2 (str ''neuroworks.docx'')],
                     w\<lparr>files := (files w)(arg_or argv 2 (str ''neuroworks.docx'') \<mapsto> docx_bytes l doc)\<rparr>)))"
  by (simp add: cover_letter_main_def cl_build_docx_def save_def Let_def split: sum.splits)

lemma parse_resume_missing:
  assumes "open_soup l p w = Inr soup" "resume_required_missing soup"
  shows "\<exists>e. parse_resume l p w = Inl e"
  using assms parse_resume_soup_fails_iff [of soup] by (simp add: parse_resume_def)

lemma parse_cover_letter_missing:
  assumes "open_soup l p w = Inr soup" "cover_required_missing soup"
  shows "\<exists>e. parse_cover_letter l p w = Inl e"
  using assms parse_cover_letter_soup_fails_iff [of soup] by (simp add: parse_cover_letter_def)

text \<open>
  Claim C2. When the tree read from the input file lacks an element that the extractor
  needs (the header block, its name, title or contact row, the skills grid, the job
  header of a job in a section of jobs, the two columns of the education section; for the
  cover letter each of its thirteen elements), the program ends with status 1, prints
  nothing and leaves the file system as it was. The same holds for every exception of
  the extractor, a missing input file included. Every run either ends so, or ends with
  status 0 after extraction has returned a complete record: the file written is the
  document built from that record.
\<close>

theorem abort_without_output:
  "(open_soup l (arg_or argv 1 (str ''resume.html'')) w = Inr soup \<and> resume_required_missing soup
      \<longrightarrow> resume_main l argv w = (1, [], w))
   \<and> (open_soup l (arg_or argv 1 (str ''neuroworks.html'')) w = Inr soup \<and> cover_required_missing soup
      \<longrightarrow> cover_letter_main l argv w = (1, [], w))
   \<and> (parse_resume l (arg_or argv 1 (str ''resume.html'')) w = Inl e
      \<longrightarrow> resume_main l argv w = (1, [], w))
   \<and> (parse_cover_letter l (arg_or argv 1 (str ''neuroworks.html'')) w = Inl e
      \<longrightarrow> cover_letter_main l argv w = (1, [], w))
   \<and> (resume_main l argv w = (1, [], w)
       \<or> (\<exists>data doc. parse_resume l (arg_or argv 1 (str ''resume.html'')) w = Inr data
             \<and> build_document data = Inr doc
             \<and> resume_main l argv w =
                 (0, [str ''Generated '' @ arg_or argv 2 (str ''resume.docx'')],
                  w\<lparr>files := (files w)(arg_or argv 2 (str ''resume.docx'') \<mapsto> docx_bytes l doc)\<rparr>)))
   \<and> (cover_letter_main l argv w = (1, [], w)
       \<or> (\<exists>data doc. parse_cover_letter l (arg_or argv 1 (str ''neuroworks.html'')) w = Inr data
             \<and> cl_build_document data = Inr doc
             \<and> cover_letter_main l argv w =
                 (0, [str ''Generated '' @ arg_or argv 2 (str ''neuroworks.docx'')],
                  w\<lparr>files := (files w)(arg_or argv 2 (str ''neuroworks.docx'') \<mapsto> docx_bytes l doc)\<rparr>)))"
proof (intro conjI impI)
  assume "open_soup l (arg_or argv 1 (str ''resume.html'')) w = Inr soup \<and> resume_required_missing soup"
  then obtain e where "parse_resume l (arg_or argv 1 (str ''resume.html'')) w = Inl e"
    using parse_resume_missing by blast
  then show "resume_main l argv w = (1, [], w)" by (simp add: resume_main_cases)
next
  assume "open_soup l (arg_or argv 1 (str ''neuroworks.html'')) w = Inr soup \<and> cover_required_missing soup"
  then obtain e where "parse_cover_letter l (arg_or argv 1 (str ''neuroworks.html'')) w = Inl e"
    using parse_cover_letter_missing by blast
  then show "cover_letter_main l argv w = (1, [], w)" by (simp add: cover_letter_main_cases)
next
  assume "parse_resume l (arg_or argv 1 (str ''resume.html'')) w = Inl e"
  then show "resume_main l argv w = (1, [], w)" by (simp add: resume_main_cases)
next
  assume "parse_cover_letter l (arg_or argv 1 (str ''neuroworks.html'')) w = Inl e"
  then show "cover_letter_main l argv w = (1, [], w)" by (simp add: cover_letter_main_cases)
next
  show "resume_main l argv w = (1, [], w)
       \<or> (\<exists>data doc. parse_resume l (arg_or argv 1 (str ''resume.html'')) w = Inr data
             \<and> build_document data = Inr doc
             \<and> resume_main l argv w =
                 (0, [str ''Generated '' @ arg_or argv 2 (str ''resume.docx'')],
                  w\<lparr>files := (files w)(arg_or argv 2 (str ''resume.docx'') \<mapsto> docx_bytes l doc)\<rparr>))"
    by (simp add: resume_main_cases split: sum.splits)
next
  show "cover_letter_main l argv w = (1, [], w)
       \<or> (\<exists>data doc. parse_cover_letter l (arg_or argv 1 (str ''neuroworks.html'')) w = Inr data
             \<and> cl_build_document data = Inr doc
             \<and> cover_letter_main l argv w =
                 (0, [str ''Generated '' @ arg_or argv 2 (str ''neuroworks.docx'')],
                  w\<lparr>files := (files w)(arg_or argv 2 (str ''neuroworks.docx'') \<mapsto> docx_bytes l doc)\<rparr>))"
    by (simp add: cover_letter_main_cases split: sum.splits)
qed

theorem abort_without_output_witness:
  "resume_main ex_lib [str ''prog'', str ''broken.html'', str ''out.docx''] ex_broken_world
     = (1, [], ex_broken_world)
   \<and> cover_letter_main ex_lib [str ''prog'', str ''broken.html'', str ''out.docx''] ex_broken_world
     = (1, [], ex_broken_world)
   \<and> resume_main ex_lib [str ''prog'', str ''absent.html''] ex_broken_world = (1, [], ex_broken_world)"
proof -
  let ?argv = "[str ''prog'', str ''broken.html'', str ''out.docx'']"
  have o: "open_soup ex_lib (str ''broken.html'') ex_broken_world = Inr ex_headless_soup"
    by (simp add: open_soup_def ex_lib_def ex_broken_world_def)
  have a: "arg_or ?argv 1 (str ''resume.html'') = str ''broken.html''"
    "arg_or ?argv 1 (str ''neuroworks.html'') = str ''broken.html''"
    "arg_or [str ''prog'', str ''absent.html''] 1 (str ''resume.html'') = str ''absent.html''"
    by (simp_all add: arg_or_def)
  have h: "find_tag ex_headless_soup (str ''div'') (Some (str ''header'')) = None"
    by (simp add: ex_headless_soup_def find_tag_def find_all_def matches_def str_def)
  have m: "resume_required_missing ex_headless_soup" "cover_required_missing ex_headless_soup"
    by (simp_all add: resume_required_missing_def cover_required_missing_def h)
  have n: "str ''absent.html'' \<noteq> str ''broken.html''" by (simp add: str_def)
  have f: "parse_resume ex_lib (str ''absent.html'') ex_broken_world = Inl FileNotFoundError"
    using n by (simp add: parse_resume_def open_soup_def ex_broken_world_def)
  have ra: "open_soup ex_lib (arg_or ?argv 1 (str ''resume.html'')) ex_broken_world = Inr ex_headless_soup
      \<and> resume_required_missing ex_headless_soup"
    unfolding a by (rule conjI [OF o m(1)])
  have ca: "open_soup ex_lib (arg_or ?argv 1 (str ''neuroworks.html'')) ex_broken_world = Inr ex_headless_soup
      \<and> cover_required_missing ex_headless_soup"
    unfolding a by (rule conjI [OF o m(2)])
  have fa: "parse_resume ex_lib (arg_or [str ''prog'', str ''absent.html''] 1 (str ''resume.html''))
      ex_broken_world = Inl FileNotFoundError"
    unfolding a by (rule f)
  note r = abort_without_output [of ex_lib ?argv ex_broken_world ex_headless_soup,
      THEN conjunct1, THEN mp, OF ra]
  note c = abort_without_output [of ex_lib ?argv ex_broken_world ex_headless_soup,
      THEN conjunct2, THEN conjunct1, THEN mp, OF ca]
  note g = abort_without_output [of ex_lib "[str ''prog'', str ''absent.html'']" ex_broken_world
      ex_headless_soup FileNotFoundError,
      THEN conjunct2, THEN conjunct2, THEN conjunct1, THEN mp, OF fa]
  show ?thesis by (intro conjI) (rule r, rule c, rule g)
qed


subsection \<open>The transform depends on the content of the input file only\<close>



end
